theory Spec2Isabelle
  imports Complex_Main "HOL-Library.AList"
begin

section \<open>Data model\<close>

text \<open>
  The validator of \<^verbatim>\<open>src/sets.ts\<close> reads a set and a format and asks the data
  tables of the \<^verbatim>\<open>pkmn\<close> package, the rules registry and the species table for
  the objects they name. JavaScript values are modelled as follows.

  \<^item> An optional field is an \<open>option\<close>; a number is an \<open>int\<close> (levels, IVs, EVs, DVs,
    boosts and generations are whole numbers in the game data), except the gender
    ratio, a dyadic fraction, which is a \<open>rat\<close>.
  \<^item> A field that the code only tests for truthiness (\<^verbatim>\<open>move.ohko\<close>, \<^verbatim>\<open>item.zMove\<close>,
    \<^verbatim>\<open>set.shiny\<close>) is the \<open>bool\<close> of that test.
  \<^item> The species, the moves, the IVs and the EVs of a set are always there (the code reads
    them without a test); its other fields are optional.
  \<^item> A plain object used as a dictionary (\<^verbatim>\<open>moveTable\<close>) is an association list in
    insertion order, the order in which \<^verbatim>\<open>for ... in\<close> visits string keys. Move ids
    are the ids of the move table: none is a canonical array index and none is a
    property name of \<^verbatim>\<open>Object.prototype\<close>.
\<close>

type_synonym ID = string

record format =
  fmt_id :: string
  fmt_gen :: int

record rules =
  rules_id :: string
  clauses :: "string set"

record stats_table =
  hp :: int
  atk :: int
  def :: int
  spa :: int
  spd :: int
  spe :: int

record boosts_table =
  b_atk :: "int option"
  b_def :: "int option"
  b_spa :: "int option"
  b_spd :: "int option"
  b_spe :: "int option"

record move =
  mv_id :: ID
  mv_name :: string
  mv_type :: string
  mv_ohko :: bool
  mv_boosts :: "boosts_table option"
  mv_zMoveBoosts :: "boosts_table option"

record item =
  it_id :: ID
  it_name :: string
  it_zMove :: bool
  it_zMoveType :: "string option"

record nature =
  nat_name :: string

record gender_ratio =
  ratio_M :: rat
  ratio_F :: rat

record species =
  sp_name :: string
  sp_baseSpecies :: string
  sp_num :: int
  sp_gen :: int
  sp_tier :: string
  sp_prevo :: "string option"
  sp_evos :: "string list option"
  sp_gender :: "string option"
  sp_genderRatio :: "gender_ratio option"
  sp_eggGroups :: "string list option"

record pokemon_set =
  set_species :: string
  set_name :: "string option"
  set_level :: "int option"
  set_gender :: "string option"
  set_shiny :: "bool option"
  set_moves :: "string list"
  set_ivs :: stats_table
  set_evs :: stats_table
  set_nature :: "string option"
  set_ability :: "string option"
  set_item :: "string option"

text \<open>
  The collaborators of the validator: \<^verbatim>\<open>Rules.get\<close> and \<^verbatim>\<open>Rules.isLittleCup\<close> of
  \<^verbatim>\<open>./rules\<close>, the species table that \<^verbatim>\<open>Species.get\<close> is to read, and \<^verbatim>\<open>Moves.get\<close>,
  \<^verbatim>\<open>Items.get\<close>, \<^verbatim>\<open>Natures.get\<close>, \<^verbatim>\<open>toID\<close>, \<^verbatim>\<open>Stats.itod\<close>, \<^verbatim>\<open>Stats.istods\<close> and
  \<^verbatim>\<open>Stats.getHPDV\<close> of the \<^verbatim>\<open>pkmn\<close> package. Their data is not part of the source,
  so they are parameters of the model; every lookup is a pure function of its
  arguments.
\<close>

record providers =
  Rules_get :: "format \<Rightarrow> rules option"
  Rules_isLittleCup :: "rules \<Rightarrow> bool"
  Species_get :: "string \<Rightarrow> int \<Rightarrow> species option"
  Moves_get :: "string \<Rightarrow> int \<Rightarrow> move option"
  Items_get :: "string option \<Rightarrow> int \<Rightarrow> item option"
  Natures_get :: "string \<Rightarrow> nature option"
  toID :: "string option \<Rightarrow> ID"
  Stats_itod :: "int \<Rightarrow> int"
  Stats_istods :: "stats_table \<Rightarrow> stats_table"
  Stats_getHPDV :: "stats_table \<Rightarrow> int"

text \<open>
  \<^verbatim>\<open>Species.get\<close> as \<^verbatim>\<open>src/species.ts\<close> has it today: the table is not written yet
  and the lookup answers \<^verbatim>\<open>undefined\<close> for every name. \<^verbatim>\<open>validate\<close> is modelled
  for any species table, this one included.
\<close>

definition Species_get_stub :: "string \<Rightarrow> int \<Rightarrow> species option" where
  "Species_get_stub s gen = None"

text \<open>\<^verbatim>\<open>Species.nfe\<close>: \<^verbatim>\<open>s.evos && s.evos.length\<close>, read as a condition.\<close>

definition Species_nfe :: "species \<Rightarrow> bool" where
  "Species_nfe s = (case sp_evos s of None \<Rightarrow> False | Some es \<Rightarrow> es \<noteq> [])"

text \<open>Truthiness of an optional string and of an optional flag.\<close>

definition truthy_str :: "string option \<Rightarrow> bool" where
  "truthy_str s = (case s of None \<Rightarrow> False | Some t \<Rightarrow> t \<noteq> [])"

definition truthy_flag :: "bool option \<Rightarrow> bool" where
  "truthy_flag b = (case b of None \<Rightarrow> False | Some c \<Rightarrow> c)"

text \<open>The string in a field that has been tested to be truthy.\<close>

definition str_of :: "string option \<Rightarrow> string" where
  "str_of s = (case s of None \<Rightarrow> [] | Some t \<Rightarrow> t)"

text \<open>\<^verbatim>\<open>b && b > 0\<close> on an optional boost.\<close>

definition positive :: "int option \<Rightarrow> bool" where
  "positive b = (case b of None \<Rightarrow> False | Some k \<Rightarrow> k \<noteq> 0 \<and> k > 0)"

text \<open>The remainder operator \<^verbatim>\<open>%\<close>: the result has the sign of the dividend.\<close>

definition js_rem :: "int \<Rightarrow> int \<Rightarrow> int" where
  "js_rem a b = sgn a * (\<bar>a\<bar> mod \<bar>b\<bar>)"

section \<open>Problems and exceptions\<close>

text \<open>
  Each constructor is one \<^verbatim>\<open>problems.push\<close> (or early \<^verbatim>\<open>return\<close>) of \<^verbatim>\<open>validate\<close>, and
  carries the values that the message interpolates, in the order of the template.
\<close>

datatype problem =
    InvalidFormat format
      \<comment> \<open>\<^verbatim>\<open>${format} is not a valid format.\<close>\<close>
  | InvalidSpecies string int
      \<comment> \<open>\<^verbatim>\<open>${set.species} is not a valid species for generation ${format.gen}\<close>\<close>
  | IllegalSpecies string int
      \<comment> \<open>\<^verbatim>\<open>${pokemon} does not exist outside of generation ${species.gen}.\<close>\<close>
  | UnreleasedSpecies string int
      \<comment> \<open>\<^verbatim>\<open>${pokemon} in unreleased in generation ${species.gen}.\<close>\<close>
  | NotFirstInFamily string
      \<comment> \<open>\<^verbatim>\<open>${pokemon} isn't the first in its evolution family.\<close>\<close>
  | NoEvolutionFamily string
      \<comment> \<open>\<^verbatim>\<open>${pokemon} doesn't have an evolution family.\<close>\<close>
  | LittleCupLevel string
      \<comment> \<open>\<^verbatim>\<open>${pokemon} must be level 5 or under in Little Cup.\<close>\<close>
  | LevelOver100 string
      \<comment> \<open>\<^verbatim>\<open>${pokemon} is higher than level 100.\<close>\<close>
  | MoreThanFourMoves string
      \<comment> \<open>\<^verbatim>\<open>${pokemon} has more than four moves.\<close>\<close>
  | InvalidMove string int
      \<comment> \<open>\<^verbatim>\<open>${m} is not a valid move for generation ${format.gen}\<close>\<close>
  | DuplicateMove string move
      \<comment> \<open>\<^verbatim>\<open>${pokemon} may not have duplicate moves (${move} is duplicated).\<close>\<close>
  | OHKOClause string
      \<comment> \<open>\<^verbatim>\<open>${move.name} is banned by OHKO Clause.\<close>\<close>
  | EvasionMovesClause string
      \<comment> \<open>\<^verbatim>\<open>${move.name} is banned by Evasion Moves Clause.\<close>\<close>
  | SwaggerClause string
      \<comment> \<open>\<^verbatim>\<open>${move.name} is banned by Swagger Clause.\<close>\<close>
  | SleepTrap string int
      \<comment> \<open>\<^verbatim>\<open>${pokemon} has both a sleeping and a trapping move, a combination
          which is banned in generation ${format.gen}.\<close>\<close>
  | BatonPassClause string
      \<comment> \<open>\<^verbatim>\<open>${pokemon} can Baton Pass both Speed and a different stat, which is
          banned by Baton Pass Clause.\<close>\<close>
  | NoMoves string
      \<comment> \<open>\<^verbatim>\<open>${pokemon} must have at least one move.\<close>\<close>
  | WrongGender string "string option" "string option"
      \<comment> \<open>\<^verbatim>\<open>${pokemon} is the wrong gender for its species (${set.gender} vs.
          ${species.gender}).\<close>\<close>
  | GenderDVMismatch string "string option" int string
      \<comment> \<open>\<^verbatim>\<open>${pokemon} is ${set.gender}, but it has an Atk DV of ${atkDV}, which
          makes its gender ${expectedGender}.\<close>\<close>
  | EVMismatch string int int
      \<comment> \<open>\<^verbatim>\<open>Before generation 3, SpA and SpD EVs must match (${pokemon} has
          ${set.evs.spa} SpA and ${set.evs.spd} SpD EVs).\<close>\<close>
  | LegendaryIVs string int
      \<comment> \<open>\<^verbatim>\<open>${pokemon} must have at least three perfect IVs because it's a
          legendary in generation ${format.gen}.\<close>\<close>
  | IVMismatch string int int
      \<comment> \<open>\<^verbatim>\<open>Before generation 3, SpA and SpD IVs must match (${pokemon} has
          ${set.ivs.spa} SpA and ${set.ivs.spd} SpD IVs).\<close>\<close>
  | HPDVMismatch string int int
      \<comment> \<open>\<^verbatim>\<open>${pokemon} has an HP DV of ${dvs.hp}, but its Atk, Def, Spe and Spc
          DVs give it an HP DV of ${expectedHPDV}.\<close>\<close>
  | ShinyMismatch string bool
      \<comment> \<open>\<^verbatim>\<open>${pokemon} is${set.shiny ? ' not ' : ' '}shiny, which does not match
          its DVs.\<close>\<close>
  | NaturesDoNotExist int string nature
      \<comment> \<open>\<^verbatim>\<open>Natures do not exist in generation ${format.gen} (${pokemon} has
          ${nature})\<close>\<close>
  | InvalidNature "string option" int
      \<comment> \<open>\<^verbatim>\<open>${set.nature} is not a valid nature in generation ${format.gen}\<close>\<close>
  | NatureRequired string int
      \<comment> \<open>\<^verbatim>\<open>${pokemon} requires a nature in generation ${format.gen}\<close>\<close>
  | InvalidAbility "string option" int
      \<comment> \<open>\<^verbatim>\<open>${set.ability} is not a valid ability for generation ${format.gen}\<close>\<close>
  | EvasionAbilitiesClause string
      \<comment> \<open>\<^verbatim>\<open>${ability.name} is banned by Evasion Abilities Clause.\<close>\<close>
  | MoodyClause string
      \<comment> \<open>\<^verbatim>\<open>${ability.name} is banned by Moody Clause.\<close>\<close>
  | AbilitiesDoNotExist int string "string option"
      \<comment> \<open>\<^verbatim>\<open>Abilities do not exist in generation ${format.gen} (${pokemon} has
          ability ${set.ability})\<close>\<close>
  | InvalidItem "string option" int
      \<comment> \<open>\<^verbatim>\<open>${set.item} is not a valid item for generation ${format.gen}\<close>\<close>
  | GriseousOrb
      \<comment> \<open>\<^verbatim>\<open>Griseous Orb can only be held by Giratina in Generation 4.\<close>\<close>
  | ItemsDoNotExist int string "string option"
      \<comment> \<open>\<^verbatim>\<open>Held items do not exist in generation ${format.gen} (${pokemon} has
          item ${set.item})\<close>\<close>

text \<open>
  Reading a property of \<^verbatim>\<open>undefined\<close> throws. The code does so where it asserts with
  \<^verbatim>\<open>!\<close> that an optional field of the species is there: \<^verbatim>\<open>species.genderRatio!.F\<close>
  and \<^verbatim>\<open>s.eggGroups![0]\<close>.
\<close>

datatype exn = TypeError


section \<open>The special-case checks\<close>

text \<open>\<^verbatim>\<open>moveTable\<close>: the resolved moves of the set by id.\<close>

type_synonym move_table = "(ID \<times> move) list"

subsection \<open>\<^verbatim>\<open>checkSleepTrap\<close>\<close>

definition SLEEP_MOVES :: "ID set" where
  "SLEEP_MOVES = {''hypnosis'', ''lovelykiss'', ''sing'', ''sleeppowder'', ''spore''}"

definition TRAP_MOVES :: "ID set" where
  "TRAP_MOVES = {''meanlook'', ''spiderweb''}"

text \<open>One turn of the loop over the table, on the flags \<^verbatim>\<open>sleep\<close> and \<^verbatim>\<open>trap\<close>.\<close>

definition sleepTrap_step :: "ID \<times> move \<Rightarrow> bool \<times> bool \<Rightarrow> bool \<times> bool" where
  "sleepTrap_step e st =
     (if mv_id (snd e) \<in> SLEEP_MOVES then (True, snd st)
      else if mv_id (snd e) \<in> TRAP_MOVES then (fst st, True)
      else st)"

definition checkSleepTrap :: "move_table \<Rightarrow> bool" where
  "checkSleepTrap moves =
     (let st = fold sleepTrap_step moves (False, False) in fst st \<and> snd st)"

subsection \<open>\<^verbatim>\<open>checkBatonPass\<close>\<close>

definition SPEED_BOOST_ABILITIES :: "ID set" where
  "SPEED_BOOST_ABILITIES =
     {''motordrive'', ''rattled'', ''speedboost'', ''steadfast'', ''weakarmor''}"

definition SPEED_BOOST_ITEMS :: "ID set" where
  "SPEED_BOOST_ITEMS = {''blazikenite'', ''eeviumz'', ''kommoniumz'', ''salacberry''}"

definition NON_SPEED_BOOST_ABILITIES :: "ID set" where
  "NON_SPEED_BOOST_ABILITIES =
     {''angerpoint'', ''competitive'', ''defiant'', ''download'', ''justified'',
      ''lightningrod'', ''moxie'', ''sapsipper'', ''stormdrain''}"

definition NON_SPEED_BOOST_ITEMS :: "ID set" where
  "NON_SPEED_BOOST_ITEMS =
     {''absorbbulb'', ''apicotberry'', ''cellbattery'', ''eeviumz'', ''ganlonberry'',
      ''keeberry'', ''kommoniumz'', ''liechiberry'', ''luminousmoss'', ''marangaberry'',
      ''petayaberry'', ''snowball'', ''starfberry'', ''weaknesspolicy''}"

definition NON_SPEED_BOOST_MOVES :: "ID set" where
  "NON_SPEED_BOOST_MOVES =
     {''acupressure'', ''bellydrum'', ''chargebeam'', ''curse'', ''diamondstorm'',
      ''fellstinger'', ''fierydance'', ''flowershield'', ''poweruppunch'', ''rage'',
      ''rototiller'', ''skullbash'', ''stockpile''}"

text \<open>
  The values of \<^verbatim>\<open>speedBoosted\<close> and \<^verbatim>\<open>nonSpeedBoosted\<close>, of type
  \<^verbatim>\<open>string|boolean\<close>: \<^verbatim>\<open>false\<close>, \<^verbatim>\<open>true\<close>, or the name of a move.
\<close>

datatype attribution = NoBoost | Generic | AttributedTo string

text \<open>Truthiness: the empty string is falsy, as \<^verbatim>\<open>false\<close> is.\<close>

definition truthy_attr :: "attribution \<Rightarrow> bool" where
  "truthy_attr a = (case a of NoBoost \<Rightarrow> False | Generic \<Rightarrow> True | AttributedTo n \<Rightarrow> n \<noteq> [])"

definition is_string :: "attribution \<Rightarrow> bool" where
  "is_string a = (case a of AttributedTo n \<Rightarrow> True | _ \<Rightarrow> False)"

text \<open>\<^verbatim>\<open>b && b.spe && b.spe > 0\<close> on \<^verbatim>\<open>move.boosts\<close> or \<^verbatim>\<open>move.zMoveBoosts\<close>.\<close>

definition boosts_speed :: "boosts_table option \<Rightarrow> bool" where
  "boosts_speed bo = (case bo of None \<Rightarrow> False | Some b \<Rightarrow> positive (b_spe b))"

text \<open>The same test on Attack, Defense, Special Attack and Special Defense.\<close>

definition boosts_non_speed :: "boosts_table option \<Rightarrow> bool" where
  "boosts_non_speed bo =
     (case bo of None \<Rightarrow> False
      | Some b \<Rightarrow> positive (b_atk b) \<or> positive (b_def b) \<or> positive (b_spa b) \<or> positive (b_spd b))"

text \<open>\<^verbatim>\<open>item && item.zMove && move.type === item.zMoveType\<close>.\<close>

definition zcrystal_for :: "item option \<Rightarrow> move \<Rightarrow> bool" where
  "zcrystal_for io move =
     (case io of None \<Rightarrow> False
      | Some i \<Rightarrow> it_zMove i \<and> Some (mv_type move) = it_zMoveType i)"

text \<open>The body of the loop over the moves, on the pair of the two variables.\<close>

definition batonPass_step ::
  "item option \<Rightarrow> ID \<times> move \<Rightarrow> attribution \<times> attribution \<Rightarrow> attribution \<times> attribution" where
  "batonPass_step item e st =
     (let move = snd e;
          speedBoosted =
            (if mv_id move = ''flamecharge'' \<or> boosts_speed (mv_boosts move)
             then Generic else fst st);
          nonSpeedBoosted =
            (if mv_id move \<in> NON_SPEED_BOOST_MOVES \<or> boosts_non_speed (mv_boosts move)
             then Generic else snd st)
      in if zcrystal_for item move then
           let speedBoosted =
                 (if boosts_speed (mv_zMoveBoosts move) \<and> \<not> truthy_attr speedBoosted
                  then AttributedTo (mv_name move) else speedBoosted);
               nonSpeedBoosted =
                 (if boosts_non_speed (mv_zMoveBoosts move) \<and>
                     (\<not> truthy_attr nonSpeedBoosted \<or> AttributedTo (mv_name move) = speedBoosted)
                  then AttributedTo (mv_name move) else nonSpeedBoosted)
           in (speedBoosted, nonSpeedBoosted)
         else (speedBoosted, nonSpeedBoosted))"

definition batonPass_loop :: "item option \<Rightarrow> move_table \<Rightarrow> attribution \<times> attribution" where
  "batonPass_loop item moves = fold (batonPass_step item) moves (NoBoost, NoBoost)"

text \<open>The ability and item tests after the loop.\<close>

definition speed_forced :: "ID \<Rightarrow> item option \<Rightarrow> bool" where
  "speed_forced ability item =
     (ability \<in> SPEED_BOOST_ABILITIES \<or>
      (case item of None \<Rightarrow> False | Some i \<Rightarrow> it_id i \<in> SPEED_BOOST_ITEMS))"

definition non_speed_forced :: "ID \<Rightarrow> item option \<Rightarrow> bool" where
  "non_speed_forced ability item =
     (ability \<in> NON_SPEED_BOOST_ABILITIES \<or>
      (case item of None \<Rightarrow> False | Some i \<Rightarrow> it_id i \<in> NON_SPEED_BOOST_ITEMS))"

definition checkBatonPass :: "providers \<Rightarrow> pokemon_set \<Rightarrow> format \<Rightarrow> move_table \<Rightarrow> bool" where
  "checkBatonPass pv pset fmt moves =
     (let item = Items_get pv (set_item pset) (fmt_gen fmt);
          ability = toID pv (set_ability pset);
          st = batonPass_loop item moves;
          speedBoosted = (if speed_forced ability item then Generic else fst st)
      in if \<not> truthy_attr speedBoosted then False
         else
           let nonSpeedBoosted = (if non_speed_forced ability item then Generic else snd st)
           in if \<not> truthy_attr nonSpeedBoosted then False
              else \<not> (speedBoosted \<noteq> nonSpeedBoosted \<and>
                       is_string speedBoosted \<and> is_string nonSpeedBoosted))"

subsection \<open>\<^verbatim>\<open>isLegendary\<close>\<close>

text \<open>
  \<^verbatim>\<open>s.eggGroups![0]\<close> is evaluated first and throws when the species has no egg
  groups; on an empty array it is \<^verbatim>\<open>undefined\<close>, which equals no string.
\<close>

definition isLegendary :: "species \<Rightarrow> bool option \<Rightarrow> exn + bool" where
  "isLegendary s shiny =
     (case sp_eggGroups s of
        None \<Rightarrow> Inl TypeError
      | Some groups \<Rightarrow>
          Inr ((take 1 groups = [''Undiscovered''] \<or> sp_name s = ''Manaphy'') \<and>
               \<not> truthy_str (sp_prevo s) \<and> \<not> Species_nfe s \<and> sp_name s \<noteq> ''Unown'' \<and>
               sp_baseSpecies s \<noteq> ''Pikachu'' \<and>
               (sp_baseSpecies s \<noteq> ''Diancie'' \<or> \<not> truthy_flag shiny)))"


section \<open>\<^verbatim>\<open>Sets.validate\<close>\<close>

text \<open>
  The body of \<^verbatim>\<open>validate\<close> after the two lookups is a sequence of blocks, each of
  which pushes onto the array \<^verbatim>\<open>problems\<close>. Each block is a function from the array
  before it to the array after it; the two blocks that can throw return a sum.
\<close>

text \<open>\<^verbatim>\<open>set.name || set.species\<close>.\<close>

definition pokemon_of :: "pokemon_set \<Rightarrow> string" where
  "pokemon_of pset =
     (case set_name pset of
        None \<Rightarrow> set_species pset
      | Some n \<Rightarrow> if n \<noteq> [] then n else set_species pset)"

definition check_tier :: "species \<Rightarrow> string \<Rightarrow> problem list \<Rightarrow> problem list" where
  "check_tier species pokemon problems =
     (if sp_tier species = ''Illegal''
      then problems @ [IllegalSpecies pokemon (sp_gen species)]
      else if sp_tier species = ''Unreleased''
      then problems @ [UnreleasedSpecies pokemon (sp_gen species)]
      else problems)"

definition check_level ::
  "providers \<Rightarrow> rules \<Rightarrow> species \<Rightarrow> pokemon_set \<Rightarrow> string \<Rightarrow> problem list \<Rightarrow> problem list" where
  "check_level pv rules species pset pokemon problems =
     (if Rules_isLittleCup pv rules then
        let problems =
              (if truthy_str (sp_prevo species) then problems @ [NotFirstInFamily pokemon]
               else if \<not> Species_nfe species then problems @ [NoEvolutionFamily pokemon]
               else problems)
        in (case set_level pset of
              None \<Rightarrow> problems
            | Some l \<Rightarrow> if l \<noteq> 0 \<and> l > 5 then problems @ [LittleCupLevel pokemon] else problems)
      else
        (case set_level pset of
           None \<Rightarrow> problems
         | Some l \<Rightarrow> if l \<noteq> 0 \<and> l > 100 then problems @ [LevelOver100 pokemon] else problems))"

text \<open>
  The loop over \<^verbatim>\<open>set.moves\<close>, on the pair of \<^verbatim>\<open>moveTable\<close> and \<^verbatim>\<open>problems\<close>. A move
  that does not resolve is reported and skipped; each of the three clause tests ends
  the turn for the move it bans.
\<close>

fun moves_loop ::
  "providers \<Rightarrow> rules \<Rightarrow> format \<Rightarrow> string \<Rightarrow> string list \<Rightarrow>
   move_table \<times> problem list \<Rightarrow> move_table \<times> problem list" where
  "moves_loop pv rules fmt pokemon [] st = st"
| "moves_loop pv rules fmt pokemon (m # ms) st =
     (case Moves_get pv m (fmt_gen fmt) of
        None \<Rightarrow>
          moves_loop pv rules fmt pokemon ms (fst st, snd st @ [InvalidMove m (fmt_gen fmt)])
      | Some move \<Rightarrow>
          let problems =
                (if map_of (fst st) (mv_id move) \<noteq> None
                 then snd st @ [DuplicateMove pokemon move] else snd st);
              moveTable = AList.update (mv_id move) move (fst st);
              problems =
                (if ''OHKO'' \<in> clauses rules \<and> mv_ohko move
                 then problems @ [OHKOClause (mv_name move)]
                 else if ''Evasion Moves'' \<in> clauses rules \<and>
                         (mv_name move = ''Minimize'' \<or> mv_name move = ''Double Team'')
                 then problems @ [EvasionMovesClause (mv_name move)]
                 else if ''Swagger'' \<in> clauses rules \<and> mv_name move = ''Swagger''
                 then problems @ [SwaggerClause (mv_name move)]
                 else problems)
          in moves_loop pv rules fmt pokemon ms (moveTable, problems))"

definition check_moves ::
  "providers \<Rightarrow> rules \<Rightarrow> pokemon_set \<Rightarrow> format \<Rightarrow> string \<Rightarrow> problem list \<Rightarrow> problem list" where
  "check_moves pv rules pset fmt pokemon problems =
     (if set_moves pset \<noteq> [] then
        let problems =
              (if length (set_moves pset) > 4 then problems @ [MoreThanFourMoves pokemon]
               else problems);
            st = moves_loop pv rules fmt pokemon (set_moves pset) ([], problems);
            moveTable = fst st;
            problems = snd st;
            problems =
              (if fmt_gen fmt = 2 \<and> checkSleepTrap moveTable
               then problems @ [SleepTrap pokemon (fmt_gen fmt)] else problems)
        in if ''Baton Pass'' \<in> clauses rules \<and> map_of moveTable ''batonpass'' \<noteq> None \<and>
              checkBatonPass pv pset fmt moveTable
           then problems @ [BatonPassClause pokemon] else problems
      else problems @ [NoMoves pokemon])"

text \<open>
  The gender block. \<^verbatim>\<open>species.genderRatio!.F\<close> throws when the species has no
  gender ratio. The ratio is a fraction, so the threshold is one too.
\<close>

definition check_gender ::
  "providers \<Rightarrow> species \<Rightarrow> pokemon_set \<Rightarrow> format \<Rightarrow> string \<Rightarrow> problem list \<Rightarrow>
   exn + problem list" where
  "check_gender pv species pset fmt pokemon problems =
     (if truthy_str (set_gender pset) then
        let problems =
              (if set_gender pset \<noteq> sp_gender species
               then problems @ [WrongGender pokemon (set_gender pset) (sp_gender species)]
               else problems)
        in if fmt_gen fmt = 2 then
             let atkDV = Stats_itod pv (atk (set_ivs pset))
             in (case sp_genderRatio species of
                   None \<Rightarrow> Inl TypeError
                 | Some ratio \<Rightarrow>
                     let genderThreshold = ratio_F ratio * 16;
                         genderThreshold = (if genderThreshold = 4 then 5 else genderThreshold);
                         genderThreshold = (if genderThreshold = 8 then 7 else genderThreshold);
                         expectedGender = (if of_int atkDV \<ge> genderThreshold then ''M'' else ''F'')
                     in if set_gender pset \<noteq> Some expectedGender
                        then Inr (problems @
                                  [GenderDVMismatch pokemon (set_gender pset) atkDV expectedGender])
                        else Inr problems)
           else Inr problems
      else Inr problems)"

definition check_evs :: "pokemon_set \<Rightarrow> format \<Rightarrow> string \<Rightarrow> problem list \<Rightarrow> problem list" where
  "check_evs pset fmt pokemon problems =
     (if fmt_gen fmt < 3 \<and> spa (set_evs pset) \<noteq> spd (set_evs pset)
      then problems @ [EVMismatch pokemon (spa (set_evs pset)) (spd (set_evs pset))]
      else problems)"

text \<open>The values of a stats table in the order of its keys.\<close>

definition stat_values :: "stats_table \<Rightarrow> int list" where
  "stat_values t = [hp t, atk t, def t, spa t, spd t, spe t]"

text \<open>The counter \<^verbatim>\<open>perfect\<close> after the loop over the stats.\<close>

definition perfect_ivs :: "stats_table \<Rightarrow> nat" where
  "perfect_ivs t = length (filter (\<lambda>v. v \<ge> 31) (stat_values t))"

definition check_ivs ::
  "providers \<Rightarrow> species \<Rightarrow> pokemon_set \<Rightarrow> format \<Rightarrow> string \<Rightarrow> problem list \<Rightarrow>
   exn + problem list" where
  "check_ivs pv species pset fmt pokemon problems =
     (if fmt_gen fmt \<ge> 6 then
        (case isLegendary species (set_shiny pset) of
           Inl e \<Rightarrow> Inl e
         | Inr legendary \<Rightarrow>
             if legendary \<and> perfect_ivs (set_ivs pset) < 3
             then Inr (problems @ [LegendaryIVs pokemon (fmt_gen fmt)])
             else Inr problems)
      else if fmt_gen fmt < 3 then
        let problems =
              (if spa (set_ivs pset) \<noteq> spd (set_ivs pset)
               then problems @ [IVMismatch pokemon (spa (set_ivs pset)) (spd (set_ivs pset))]
               else problems)
        in if fmt_gen fmt = 2 then
             let dvs = Stats_istods pv (set_ivs pset);
                 expectedHPDV = Stats_getHPDV pv (set_ivs pset);
                 problems =
                   (if hp dvs \<noteq> expectedHPDV
                    then problems @ [HPDVMismatch pokemon (hp dvs) expectedHPDV]
                    else problems);
                 expectedShiny =
                   (def dvs = 10 \<and> spe dvs = 10 \<and> spa dvs = 10 \<and> js_rem (atk dvs) 4 \<ge> 2)
             in if (expectedShiny \<and> \<not> truthy_flag (set_shiny pset)) \<or>
                   (\<not> expectedShiny \<and> truthy_flag (set_shiny pset))
                then Inr (problems @ [ShinyMismatch pokemon (truthy_flag (set_shiny pset))])
                else Inr problems
           else Inr problems
      else Inr problems)"

definition check_nature ::
  "providers \<Rightarrow> pokemon_set \<Rightarrow> format \<Rightarrow> string \<Rightarrow> problem list \<Rightarrow> problem list" where
  "check_nature pv pset fmt pokemon problems =
     (if truthy_str (set_nature pset) then
        (case Natures_get pv (str_of (set_nature pset)) of
           Some nature \<Rightarrow>
             if fmt_gen fmt < 3
             then problems @ [NaturesDoNotExist (fmt_gen fmt) pokemon nature]
             else problems
         | None \<Rightarrow>
             if fmt_gen fmt \<ge> 3
             then problems @ [InvalidNature (set_nature pset) (fmt_gen fmt)]
             else problems)
      else if fmt_gen fmt \<ge> 3 then problems @ [NatureRequired pokemon (fmt_gen fmt)]
      else problems)"

text \<open>The ability block. The lookup of the ability is \<^verbatim>\<open>pkmn.Items.get\<close> in the source.\<close>

definition check_ability ::
  "providers \<Rightarrow> rules \<Rightarrow> pokemon_set \<Rightarrow> format \<Rightarrow> string \<Rightarrow> problem list \<Rightarrow> problem list" where
  "check_ability pv rules pset fmt pokemon problems =
     (if fmt_gen fmt \<ge> 3 then
        (case Items_get pv (set_ability pset) (fmt_gen fmt) of
           None \<Rightarrow> problems @ [InvalidAbility (set_ability pset) (fmt_gen fmt)]
         | Some ability \<Rightarrow>
             let problems =
                   (if ''Evasion Abilities'' \<in> clauses rules \<and>
                       (it_name ability = ''Sand Veil'' \<or> it_name ability = ''Snow Cloak'')
                    then problems @ [EvasionAbilitiesClause (it_name ability)]
                    else problems)
             in if ''Moody'' \<in> clauses rules \<and> it_name ability = ''Moody''
                then problems @ [MoodyClause (it_name ability)]
                else problems)
      else if truthy_str (set_ability pset)
      then problems @ [AbilitiesDoNotExist (fmt_gen fmt) pokemon (set_ability pset)]
      else problems)"

definition check_item ::
  "providers \<Rightarrow> species \<Rightarrow> pokemon_set \<Rightarrow> format \<Rightarrow> string \<Rightarrow> problem list \<Rightarrow> problem list" where
  "check_item pv species pset fmt pokemon problems =
     (if fmt_gen fmt \<ge> 2 then
        let item = Items_get pv (set_item pset) (fmt_gen fmt);
            problems =
              (if truthy_str (set_item pset) \<and> item = None
               then problems @ [InvalidItem (set_item pset) (fmt_gen fmt)]
               else problems)
        in (case item of
              None \<Rightarrow> problems
            | Some i \<Rightarrow>
                if it_id i = ''griseousorb'' \<and> sp_num species \<noteq> 487
                then problems @ [GriseousOrb] else problems)
      else if truthy_str (set_item pset)
      then problems @ [ItemsDoNotExist (fmt_gen fmt) pokemon (set_item pset)]
      else problems)"

text \<open>The blocks in the order of the source, from the empty array.\<close>

definition validate_species ::
  "providers \<Rightarrow> rules \<Rightarrow> species \<Rightarrow> pokemon_set \<Rightarrow> format \<Rightarrow> exn + problem list" where
  "validate_species pv rules species pset fmt =
     (let problems = [];
          pokemon = pokemon_of pset;
          problems = check_tier species pokemon problems;
          problems = check_level pv rules species pset pokemon problems;
          problems = check_moves pv rules pset fmt pokemon problems
      in (case check_gender pv species pset fmt pokemon problems of
            Inl e \<Rightarrow> Inl e
          | Inr problems \<Rightarrow>
              let problems = check_evs pset fmt pokemon problems
              in (case check_ivs pv species pset fmt pokemon problems of
                    Inl e \<Rightarrow> Inl e
                  | Inr problems \<Rightarrow>
                      let problems = check_nature pv pset fmt pokemon problems;
                          problems = check_ability pv rules pset fmt pokemon problems;
                          problems = check_item pv species pset fmt pokemon problems
                      in Inr problems)))"

definition validate :: "providers \<Rightarrow> pokemon_set \<Rightarrow> format \<Rightarrow> exn + problem list" where
  "validate pv pset fmt =
     (case Rules_get pv fmt of
        None \<Rightarrow> Inr [InvalidFormat fmt]
      | Some rules \<Rightarrow>
          (case Species_get pv (set_species pset) (fmt_gen fmt) of
             None \<Rightarrow> Inr [InvalidSpecies (set_species pset) (fmt_gen fmt)]
           | Some species \<Rightarrow> validate_species pv rules species pset fmt))"


section \<open>Notions used to state the properties\<close>

text \<open>
  The species data that the code takes for granted: a gender ratio where the Attack DV
  decides the gender, egg groups where the legendary test is made. \<^verbatim>\<open>validate\<close>
  throws exactly when a resolved species lacks them (lemma \<open>validate_throws_iff\<close>).
\<close>

definition species_complete :: "species \<Rightarrow> pokemon_set \<Rightarrow> format \<Rightarrow> bool" where
  "species_complete species pset fmt =
     ((truthy_str (set_gender pset) \<and> fmt_gen fmt = 2 \<longrightarrow> sp_genderRatio species \<noteq> None) \<and>
      (fmt_gen fmt \<ge> 6 \<longrightarrow> sp_eggGroups species \<noteq> None))"

text \<open>The block of \<^verbatim>\<open>validate\<close> that pushes a problem.\<close>

datatype block =
  Resolution | Tier | Level | Moves | Gender | EVs | IVs | Nature | Ability | Item

fun block_of :: "problem \<Rightarrow> block" where
  "block_of (InvalidFormat f) = Resolution"
| "block_of (InvalidSpecies s g) = Resolution"
| "block_of (IllegalSpecies p g) = Tier"
| "block_of (UnreleasedSpecies p g) = Tier"
| "block_of (NotFirstInFamily p) = Level"
| "block_of (NoEvolutionFamily p) = Level"
| "block_of (LittleCupLevel p) = Level"
| "block_of (LevelOver100 p) = Level"
| "block_of (MoreThanFourMoves p) = Moves"
| "block_of (InvalidMove m g) = Moves"
| "block_of (DuplicateMove p m) = Moves"
| "block_of (OHKOClause n) = Moves"
| "block_of (EvasionMovesClause n) = Moves"
| "block_of (SwaggerClause n) = Moves"
| "block_of (SleepTrap p g) = Moves"
| "block_of (BatonPassClause p) = Moves"
| "block_of (NoMoves p) = Moves"
| "block_of (WrongGender p a b) = Gender"
| "block_of (GenderDVMismatch p a d e) = Gender"
| "block_of (EVMismatch p a b) = EVs"
| "block_of (LegendaryIVs p g) = IVs"
| "block_of (IVMismatch p a b) = IVs"
| "block_of (HPDVMismatch p a b) = IVs"
| "block_of (ShinyMismatch p b) = IVs"
| "block_of (NaturesDoNotExist g p n) = Nature"
| "block_of (InvalidNature n g) = Nature"
| "block_of (NatureRequired p g) = Nature"
| "block_of (InvalidAbility a g) = Ability"
| "block_of (EvasionAbilitiesClause n) = Ability"
| "block_of (MoodyClause n) = Ability"
| "block_of (AbilitiesDoNotExist g p a) = Ability"
| "block_of (InvalidItem i g) = Item"
| "block_of GriseousOrb = Item"
| "block_of (ItemsDoNotExist g p i) = Item"

text \<open>The moves of the set that resolve for the generation of the format, in order.\<close>

definition resolved_moves :: "providers \<Rightarrow> pokemon_set \<Rightarrow> format \<Rightarrow> move list" where
  "resolved_moves pv pset fmt =
     List.map_filter (\<lambda>m. Moves_get pv m (fmt_gen fmt)) (set_moves pset)"

text \<open>\<^verbatim>\<open>moveTable\<close> when the loop over the moves of the set is over.\<close>

definition moveTable_of :: "providers \<Rightarrow> pokemon_set \<Rightarrow> format \<Rightarrow> move_table" where
  "moveTable_of pv pset fmt =
     fold (\<lambda>move. AList.update (mv_id move) move) (resolved_moves pv pset fmt) []"

subsection \<open>Baton Pass\<close>

text \<open>
  A source of a Speed boost, in the words of the specification: a move that is Flame
  Charge or has a positive Speed boost; a move whose type is that of the held
  Z-crystal and whose Z-move form has a positive Speed boost; one of the fixed
  abilities or items. Likewise for a boost of another stat.
\<close>

definition has_speed_boost_source ::
  "providers \<Rightarrow> pokemon_set \<Rightarrow> format \<Rightarrow> move_table \<Rightarrow> bool" where
  "has_speed_boost_source pv pset fmt moves =
     (let item = Items_get pv (set_item pset) (fmt_gen fmt)
      in list_ex (\<lambda>e. mv_id (snd e) = ''flamecharge'' \<or> boosts_speed (mv_boosts (snd e)) \<or>
                       (zcrystal_for item (snd e) \<and> boosts_speed (mv_zMoveBoosts (snd e)))) moves \<or>
         toID pv (set_ability pset) \<in> SPEED_BOOST_ABILITIES \<or>
         (case item of None \<Rightarrow> False | Some i \<Rightarrow> it_id i \<in> SPEED_BOOST_ITEMS))"

definition has_non_speed_boost_source ::
  "providers \<Rightarrow> pokemon_set \<Rightarrow> format \<Rightarrow> move_table \<Rightarrow> bool" where
  "has_non_speed_boost_source pv pset fmt moves =
     (let item = Items_get pv (set_item pset) (fmt_gen fmt)
      in list_ex (\<lambda>e. mv_id (snd e) \<in> NON_SPEED_BOOST_MOVES \<or>
                       boosts_non_speed (mv_boosts (snd e)) \<or>
                       (zcrystal_for item (snd e) \<and>
                        boosts_non_speed (mv_zMoveBoosts (snd e)))) moves \<or>
         toID pv (set_ability pset) \<in> NON_SPEED_BOOST_ABILITIES \<or>
         (case item of None \<Rightarrow> False | Some i \<Rightarrow> it_id i \<in> NON_SPEED_BOOST_ITEMS))"

text \<open>
  The two attributions: the values of \<^verbatim>\<open>speedBoosted\<close> and \<^verbatim>\<open>nonSpeedBoosted\<close> after
  the loop and the ability and item tests.
\<close>

definition boost_attributions ::
  "providers \<Rightarrow> pokemon_set \<Rightarrow> format \<Rightarrow> move_table \<Rightarrow> attribution \<times> attribution" where
  "boost_attributions pv pset fmt moves =
     (let item = Items_get pv (set_item pset) (fmt_gen fmt);
          ability = toID pv (set_ability pset);
          st = batonPass_loop item moves
      in (if speed_forced ability item then Generic else fst st,
          if non_speed_forced ability item then Generic else snd st))"

text \<open>Both attributions are names of moves, and the names differ.\<close>

fun distinct_z_moves :: "attribution \<times> attribution \<Rightarrow> bool" where
  "distinct_z_moves (AttributedTo a, AttributedTo b) = (a \<noteq> b)"
| "distinct_z_moves (x, y) = False"

text \<open>Every move of the table has a name, as every move of the move table does.\<close>

definition moves_named :: "move_table \<Rightarrow> bool" where
  "moves_named moves = list_all (\<lambda>e. mv_name (snd e) \<noteq> []) moves"

subsection \<open>Moves\<close>

text \<open>A duplicate-move problem for the move id \<open>i\<close>.\<close>

fun is_duplicate_of :: "ID \<Rightarrow> problem \<Rightarrow> bool" where
  "is_duplicate_of i (DuplicateMove p m) = (mv_id m = i)"
| "is_duplicate_of i q = False"

text \<open>A problem of one of the three clauses on moves.\<close>

fun is_move_clause_problem :: "problem \<Rightarrow> bool" where
  "is_move_clause_problem (OHKOClause n) = True"
| "is_move_clause_problem (EvasionMovesClause n) = True"
| "is_move_clause_problem (SwaggerClause n) = True"
| "is_move_clause_problem q = False"

text \<open>
  The clause that bans a move, in the words of the specification: the OHKO clause, the
  Evasion Moves clause (Minimize, Double Team), the Swagger clause; the first that
  applies ends the tests for the move.
\<close>

definition move_clause_ban :: "rules \<Rightarrow> move \<Rightarrow> problem option" where
  "move_clause_ban rules move =
     (if ''OHKO'' \<in> clauses rules \<and> mv_ohko move then Some (OHKOClause (mv_name move))
      else if ''Evasion Moves'' \<in> clauses rules \<and> mv_name move \<in> {''Minimize'', ''Double Team''}
      then Some (EvasionMovesClause (mv_name move))
      else if ''Swagger'' \<in> clauses rules \<and> mv_name move = ''Swagger''
      then Some (SwaggerClause (mv_name move))
      else None)"

text \<open>The problem of the sleep and trap combination, and the problems of the level.\<close>

fun is_sleep_trap_problem :: "problem \<Rightarrow> bool" where
  "is_sleep_trap_problem (SleepTrap p g) = True"
| "is_sleep_trap_problem q = False"

fun is_level_problem :: "problem \<Rightarrow> bool" where
  "is_level_problem (LittleCupLevel p) = True"
| "is_level_problem (LevelOver100 p) = True"
| "is_level_problem q = False"

subsection \<open>Legendary species\<close>

text \<open>
  The legendary predicate in the words of the specification: the primary egg group is
  Undiscovered or the name is Manaphy; no pre-evolution and no evolutions; not Unown;
  the base species is not Pikachu; the base species is not Diancie, or the set is not
  shiny.
\<close>

definition legendary_spec :: "species \<Rightarrow> bool \<Rightarrow> bool" where
  "legendary_spec s shiny =
     (((case sp_eggGroups s of Some (g # gs) \<Rightarrow> g = ''Undiscovered'' | _ \<Rightarrow> False) \<or>
       sp_name s = ''Manaphy'') \<and>
      (sp_prevo s = None \<or> sp_prevo s = Some []) \<and>
      (sp_evos s = None \<or> sp_evos s = Some []) \<and>
      sp_name s \<noteq> ''Unown'' \<and>
      sp_baseSpecies s \<noteq> ''Pikachu'' \<and>
      (sp_baseSpecies s \<noteq> ''Diancie'' \<or> \<not> shiny))"

subsection \<open>DVs\<close>

text \<open>
  The shininess that the DVs give, in the words of the specification: the Defense,
  Speed and Special DVs are 10 and the Attack DV modulo 4 is at least 2.
\<close>

definition shiny_dvs :: "stats_table \<Rightarrow> bool" where
  "shiny_dvs dvs = (def dvs = 10 \<and> spe dvs = 10 \<and> spa dvs = 10 \<and> atk dvs mod 4 \<ge> 2)"


subsection \<open>Gender\<close>

text \<open>
  The gender that the Attack DV gives in generation 2, in the words of the
  specification: the threshold is the female ratio times 16, corrected to 5 when that
  is 4 and to 7 when it is 8; an Attack DV at or above the threshold means male.
\<close>

definition gender_threshold :: "rat \<Rightarrow> rat" where
  "gender_threshold f = (if f * 16 = 4 then 5 else if f * 16 = 8 then 7 else f * 16)"

definition dv_gender :: "rat \<Rightarrow> int \<Rightarrow> string" where
  "dv_gender f atkDV = (if of_int atkDV \<ge> gender_threshold f then ''M'' else ''F'')"

section \<open>A small instance of the data tables\<close>

text \<open>
  The theorems below hold for every instance of the collaborators. Their hypotheses
  are met on the following one: two rule sets with all six clauses, one of them Little
  Cup; three species; eleven moves, three items and one nature with the data of the
  games; and the DV helpers as the games compute them (a DV is half the IV, rounded
  down; the HP DV collects the lowest bits of the Attack, Defense, Speed and Special
  DVs).
\<close>

definition ex_clauses :: "string set" where
  "ex_clauses =
     {''OHKO'', ''Evasion Moves'', ''Swagger'', ''Baton Pass'', ''Evasion Abilities'', ''Moody''}"

definition ex_Rules_get :: "format \<Rightarrow> rules option" where
  "ex_Rules_get f =
     (if fmt_id f = ''ou'' then Some \<lparr>rules_id = ''ou'', clauses = ex_clauses\<rparr>
      else if fmt_id f = ''lc'' then Some \<lparr>rules_id = ''lc'', clauses = ex_clauses\<rparr>
      else None)"

definition ex_isLittleCup :: "rules \<Rightarrow> bool" where
  "ex_isLittleCup r = (rules_id r = ''lc'')"

definition ex_diancie :: species where
  "ex_diancie =
     \<lparr>sp_name = ''Diancie'', sp_baseSpecies = ''Diancie'', sp_num = 719, sp_gen = 6,
      sp_tier = ''OU'', sp_prevo = None, sp_evos = None, sp_gender = Some ''N'',
      sp_genderRatio = Some \<lparr>ratio_M = 0, ratio_F = 0\<rparr>,
      sp_eggGroups = Some [''Undiscovered'']\<rparr>"

definition ex_smeargle :: species where
  "ex_smeargle =
     \<lparr>sp_name = ''Smeargle'', sp_baseSpecies = ''Smeargle'', sp_num = 235, sp_gen = 2,
      sp_tier = ''OU'', sp_prevo = None, sp_evos = None, sp_gender = None,
      sp_genderRatio = Some \<lparr>ratio_M = 1 / 2, ratio_F = 1 / 2\<rparr>,
      sp_eggGroups = Some [''Field'']\<rparr>"

definition ex_pichu :: species where
  "ex_pichu =
     \<lparr>sp_name = ''Pichu'', sp_baseSpecies = ''Pichu'', sp_num = 172, sp_gen = 2,
      sp_tier = ''LC'', sp_prevo = None, sp_evos = Some [''pikachu''], sp_gender = None,
      sp_genderRatio = Some \<lparr>ratio_M = 1 / 2, ratio_F = 1 / 2\<rparr>,
      sp_eggGroups = Some [''Undiscovered'']\<rparr>"

definition ex_Species_get :: "string \<Rightarrow> int \<Rightarrow> species option" where
  "ex_Species_get s gen =
     (if s = ''Diancie'' \<and> gen \<ge> 6 then Some ex_diancie
      else if s = ''Smeargle'' \<and> gen \<ge> 2 then Some ex_smeargle
      else if s = ''Pichu'' \<and> gen \<ge> 2 then Some ex_pichu
      else None)"

definition no_boosts :: boosts_table where
  "no_boosts = \<lparr>b_atk = None, b_def = None, b_spa = None, b_spd = None, b_spe = None\<rparr>"

definition ex_move :: "ID \<Rightarrow> string \<Rightarrow> string \<Rightarrow> move" where
  "ex_move i n t =
     \<lparr>mv_id = i, mv_name = n, mv_type = t, mv_ohko = False, mv_boosts = None,
      mv_zMoveBoosts = None\<rparr>"

definition ex_moves :: "(string \<times> move) list" where
  "ex_moves =
     [(''Tackle'', ex_move ''tackle'' ''Tackle'' ''Normal''),
      (''Baton Pass'', ex_move ''batonpass'' ''Baton Pass'' ''Normal''),
      (''Spore'', ex_move ''spore'' ''Spore'' ''Grass''),
      (''Mean Look'', ex_move ''meanlook'' ''Mean Look'' ''Normal''),
      (''Swagger'', ex_move ''swagger'' ''Swagger'' ''Normal''),
      (''Fissure'', (ex_move ''fissure'' ''Fissure'' ''Ground'')\<lparr>mv_ohko := True\<rparr>),
      (''Agility'',
       (ex_move ''agility'' ''Agility'' ''Psychic'')\<lparr>mv_boosts := Some (no_boosts\<lparr>b_spe := Some 2\<rparr>)\<rparr>),
      (''Swords Dance'',
       (ex_move ''swordsdance'' ''Swords Dance'' ''Normal'')
         \<lparr>mv_boosts := Some (no_boosts\<lparr>b_atk := Some 2\<rparr>)\<rparr>),
      (''Recycle'',
       (ex_move ''recycle'' ''Recycle'' ''Normal'')
         \<lparr>mv_zMoveBoosts := Some (no_boosts\<lparr>b_spe := Some 2\<rparr>)\<rparr>),
      (''Splash'',
       (ex_move ''splash'' ''Splash'' ''Normal'')
         \<lparr>mv_zMoveBoosts := Some (no_boosts\<lparr>b_atk := Some 3\<rparr>)\<rparr>),
      (''Celebrate'',
       (ex_move ''celebrate'' ''Celebrate'' ''Normal'')
         \<lparr>mv_zMoveBoosts :=
            Some \<lparr>b_atk = Some 1, b_def = Some 1, b_spa = Some 1, b_spd = Some 1,
                  b_spe = Some 1\<rparr>\<rparr>)]"

definition ex_Moves_get :: "string \<Rightarrow> int \<Rightarrow> move option" where
  "ex_Moves_get m gen = map_of ex_moves m"

definition ex_items :: "(string \<times> item) list" where
  "ex_items =
     [(''Leftovers'',
       \<lparr>it_id = ''leftovers'', it_name = ''Leftovers'', it_zMove = False, it_zMoveType = None\<rparr>),
      (''Salac Berry'',
       \<lparr>it_id = ''salacberry'', it_name = ''Salac Berry'', it_zMove = False,
        it_zMoveType = None\<rparr>),
      (''Normalium Z'',
       \<lparr>it_id = ''normaliumz'', it_name = ''Normalium Z'', it_zMove = True,
        it_zMoveType = Some ''Normal''\<rparr>)]"

definition ex_Items_get :: "string option \<Rightarrow> int \<Rightarrow> item option" where
  "ex_Items_get i gen = (case i of None \<Rightarrow> None | Some n \<Rightarrow> map_of ex_items n)"

definition ex_Natures_get :: "string \<Rightarrow> nature option" where
  "ex_Natures_get n = (if n = ''Adamant'' then Some \<lparr>nat_name = ''Adamant''\<rparr> else None)"

definition ex_toID :: "string option \<Rightarrow> ID" where
  "ex_toID a =
     (case a of
        None \<Rightarrow> []
      | Some n \<Rightarrow>
          if n = ''Speed Boost'' then ''speedboost''
          else if n = ''Sand Veil'' then ''sandveil''
          else if n = ''Own Tempo'' then ''owntempo''
          else if n = ''Clear Body'' then ''clearbody''
          else [])"

definition ex_itod :: "int \<Rightarrow> int" where
  "ex_itod iv = iv div 2"

definition ex_istods :: "stats_table \<Rightarrow> stats_table" where
  "ex_istods t =
     \<lparr>hp = ex_itod (hp t), atk = ex_itod (atk t), def = ex_itod (def t),
      spa = ex_itod (spa t), spd = ex_itod (spd t), spe = ex_itod (spe t)\<rparr>"

definition ex_getHPDV :: "stats_table \<Rightarrow> int" where
  "ex_getHPDV t =
     (ex_itod (atk t) mod 2) * 8 + (ex_itod (def t) mod 2) * 4 +
     (ex_itod (spe t) mod 2) * 2 + (ex_itod (spa t) mod 2)"

definition ex_providers :: providers where
  "ex_providers =
     \<lparr>Rules_get = ex_Rules_get, Rules_isLittleCup = ex_isLittleCup,
      Species_get = ex_Species_get, Moves_get = ex_Moves_get, Items_get = ex_Items_get,
      Natures_get = ex_Natures_get, toID = ex_toID, Stats_itod = ex_itod,
      Stats_istods = ex_istods, Stats_getHPDV = ex_getHPDV\<rparr>"

text \<open>A table with the same value for every stat, and a set with one move.\<close>

definition all_stats :: "int \<Rightarrow> stats_table" where
  "all_stats v = \<lparr>hp = v, atk = v, def = v, spa = v, spd = v, spe = v\<rparr>"

definition ex_set :: "string \<Rightarrow> string list \<Rightarrow> pokemon_set" where
  "ex_set s ms =
     \<lparr>set_species = s, set_name = None, set_level = None, set_gender = None,
      set_shiny = None, set_moves = ms, set_ivs = all_stats 30, set_evs = all_stats 0,
      set_nature = None, set_ability = None, set_item = None\<rparr>"

definition gen2ou :: format where
  "gen2ou = \<lparr>fmt_id = ''ou'', fmt_gen = 2\<rparr>"

definition gen7ou :: format where
  "gen7ou = \<lparr>fmt_id = ''ou'', fmt_gen = 7\<rparr>"

definition gen7lc :: format where
  "gen7lc = \<lparr>fmt_id = ''lc'', fmt_gen = 7\<rparr>"

text \<open>
  Two move tables with Baton Pass: one with Agility and Swords Dance, whose boosts are
  those of the moves themselves, and one with Recycle and Splash, whose boosts are those
  of their Z-move forms under a Normalium Z.
\<close>

definition ex_table_boosts :: move_table where
  "ex_table_boosts =
     [(''batonpass'', ex_move ''batonpass'' ''Baton Pass'' ''Normal''),
      (''agility'',
       (ex_move ''agility'' ''Agility'' ''Psychic'')\<lparr>mv_boosts := Some (no_boosts\<lparr>b_spe := Some 2\<rparr>)\<rparr>),
      (''swordsdance'',
       (ex_move ''swordsdance'' ''Swords Dance'' ''Normal'')
         \<lparr>mv_boosts := Some (no_boosts\<lparr>b_atk := Some 2\<rparr>)\<rparr>)]"

definition ex_table_zmoves :: move_table where
  "ex_table_zmoves =
     [(''batonpass'', ex_move ''batonpass'' ''Baton Pass'' ''Normal''),
      (''recycle'',
       (ex_move ''recycle'' ''Recycle'' ''Normal'')
         \<lparr>mv_zMoveBoosts := Some (no_boosts\<lparr>b_spe := Some 2\<rparr>)\<rparr>),
      (''splash'',
       (ex_move ''splash'' ''Splash'' ''Normal'')
         \<lparr>mv_zMoveBoosts := Some (no_boosts\<lparr>b_atk := Some 3\<rparr>)\<rparr>)]"

section \<open>The structure of \<^verbatim>\<open>validate\<close>\<close>

text \<open>
  Every block appends to the array it is given, so the result of \<^verbatim>\<open>validate\<close> on a
  resolved species is the concatenation of what each block reports on its own.
\<close>

lemma moves_loop_append:
  "moves_loop pv rules fmt pokemon ms (tbl, ps) =
   (fst (moves_loop pv rules fmt pokemon ms (tbl, [])),
    ps @ snd (moves_loop pv rules fmt pokemon ms (tbl, [])))"
proof (induction ms arbitrary: tbl ps)
  case Nil
  show ?case by simp
next
  case (Cons m ms)
  show ?case
  proof (cases "Moves_get pv m (fmt_gen fmt)")
    case None
    then show ?thesis
      using Cons.IH [of tbl "ps @ [InvalidMove m (fmt_gen fmt)]"]
            Cons.IH [of tbl "[InvalidMove m (fmt_gen fmt)]"]
      by simp
  next
    case (Some move)
    obtain t d where step: "\<And>qs. moves_loop pv rules fmt pokemon (m # ms) (tbl, qs) =
                moves_loop pv rules fmt pokemon ms (t, qs @ d)"
    proof
      fix qs
      show "moves_loop pv rules fmt pokemon (m # ms) (tbl, qs) =
        moves_loop pv rules fmt pokemon ms (AList.update (mv_id move) move tbl,
          qs @ ((if map_of tbl (mv_id move) \<noteq> None then [DuplicateMove pokemon move] else []) @
             (if ''OHKO'' \<in> clauses rules \<and> mv_ohko move
                 then [OHKOClause (mv_name move)]
                 else if ''Evasion Moves'' \<in> clauses rules \<and>
                         (mv_name move = ''Minimize'' \<or> mv_name move = ''Double Team'')
                 then [EvasionMovesClause (mv_name move)]
                 else if ''Swagger'' \<in> clauses rules \<and> mv_name move = ''Swagger''
                 then [SwaggerClause (mv_name move)]
                 else [])))"
        using Some by (auto simp add: Let_def)
    qed
    show ?thesis
      unfolding step [of ps] step [of "[]"]
      using Cons.IH [of t "ps @ d"] Cons.IH [of t "d"]
      by simp
  qed
qed

lemma check_moves_append:
  "check_moves pv rules pset fmt pokemon problems =
   problems @ check_moves pv rules pset fmt pokemon []"
proof -
  obtain t qs where l: "moves_loop pv rules fmt pokemon (set_moves pset) ([], []) = (t, qs)"
    by (cases "moves_loop pv rules fmt pokemon (set_moves pset) ([], [])")
  have a: "moves_loop pv rules fmt pokemon (set_moves pset) ([], rs) = (t, rs @ qs)" for rs
    using moves_loop_append [of pv rules fmt pokemon "set_moves pset" "[]" rs] l by simp
  show ?thesis
    unfolding check_moves_def Let_def a l
    by auto
qed
lemma check_gender_append:
  "check_gender pv species pset fmt pokemon problems =
   map_sum id ((@) problems) (check_gender pv species pset fmt pokemon [])"
  by (cases "sp_genderRatio species") (simp_all add: check_gender_def Let_def)
lemma check_ivs_append:
  "check_ivs pv species pset fmt pokemon problems =
   map_sum id ((@) problems) (check_ivs pv species pset fmt pokemon [])"
proof (cases "fmt_gen fmt \<ge> 6")
  case True
  then show ?thesis
    by (cases "isLegendary species (set_shiny pset)") (simp_all add: check_ivs_def)
next
  case False
  note ge = this
  show ?thesis
  proof (cases "fmt_gen fmt = 2")
    case True
    then show ?thesis by (simp add: check_ivs_def Let_def)
  next
    case False
    then show ?thesis using ge by (simp add: check_ivs_def Let_def)
  qed
qed
lemma check_tier_append: "check_tier species pokemon problems = problems @ check_tier species pokemon []"
  by (simp add: check_tier_def)

lemma check_level_append:
  "check_level pv rules species pset pokemon problems =
   problems @ check_level pv rules species pset pokemon []"
  by (cases "set_level pset") (simp_all add: check_level_def Let_def)

lemma check_evs_append:
  "check_evs pset fmt pokemon problems = problems @ check_evs pset fmt pokemon []"
  by (simp add: check_evs_def)

lemma check_nature_append:
  "check_nature pv pset fmt pokemon problems = problems @ check_nature pv pset fmt pokemon []"
  by (cases "Natures_get pv (str_of (set_nature pset))") (simp_all add: check_nature_def)

lemma check_ability_append:
  "check_ability pv rules pset fmt pokemon problems =
   problems @ check_ability pv rules pset fmt pokemon []"
  by (cases "Items_get pv (set_ability pset) (fmt_gen fmt)")
     (auto simp add: check_ability_def Let_def)

lemma check_item_append:
  "check_item pv species pset fmt pokemon problems =
   problems @ check_item pv species pset fmt pokemon []"
  by (cases "Items_get pv (set_item pset) (fmt_gen fmt)")
     (simp_all add: check_item_def Let_def)

lemma check_gender_complete:
  assumes "species_complete species pset fmt"
  shows "\<exists>g. check_gender pv species pset fmt pokemon [] = Inr g"
proof (cases "truthy_str (set_gender pset) \<and> fmt_gen fmt = 2")
  case True
  with assms obtain r where "sp_genderRatio species = Some r"
    by (auto simp add: species_complete_def)
  with True show ?thesis by (simp add: check_gender_def Let_def)
next
  case False
  then show ?thesis by (auto simp add: check_gender_def Let_def)
qed

lemma check_ivs_complete:
  assumes "species_complete species pset fmt"
  shows "\<exists>i. check_ivs pv species pset fmt pokemon [] = Inr i"
proof (cases "fmt_gen fmt \<ge> 6")
  case True
  with assms obtain gs where "sp_eggGroups species = Some gs"
    by (auto simp add: species_complete_def)
  with True show ?thesis by (simp add: check_ivs_def isLegendary_def)
next
  case False
  then show ?thesis by (simp add: check_ivs_def Let_def)
qed

lemma validate_species_sections:
  assumes g: "check_gender pv species pset fmt (pokemon_of pset) [] = Inr g"
    and i: "check_ivs pv species pset fmt (pokemon_of pset) [] = Inr i"
  shows "validate_species pv rules species pset fmt =
         Inr (check_tier species (pokemon_of pset) [] @
              check_level pv rules species pset (pokemon_of pset) [] @
              check_moves pv rules pset fmt (pokemon_of pset) [] @
              g @
              check_evs pset fmt (pokemon_of pset) [] @
              i @
              check_nature pv pset fmt (pokemon_of pset) [] @
              check_ability pv rules pset fmt (pokemon_of pset) [] @
              check_item pv species pset fmt (pokemon_of pset) [])"
proof -
  let ?pk = "pokemon_of pset"
  let ?T = "check_tier species ?pk []"
  let ?L = "check_level pv rules species pset ?pk []"
  let ?M = "check_moves pv rules pset fmt ?pk []"
  let ?E = "check_evs pset fmt ?pk []"
  let ?N = "check_nature pv pset fmt ?pk []"
  let ?A = "check_ability pv rules pset fmt ?pk []"
  let ?I = "check_item pv species pset fmt ?pk []"
  have l: "check_level pv rules species pset ?pk ?T = ?T @ ?L"
    by (rule check_level_append)
  have m: "check_moves pv rules pset fmt ?pk (?T @ ?L) = ?T @ ?L @ ?M"
    using check_moves_append [of pv rules pset fmt ?pk "?T @ ?L"] by simp
  have gg: "check_gender pv species pset fmt ?pk (?T @ ?L @ ?M) = Inr (?T @ ?L @ ?M @ g)"
    using check_gender_append [of pv species pset fmt ?pk "?T @ ?L @ ?M"] g by simp
  have e: "check_evs pset fmt ?pk (?T @ ?L @ ?M @ g) = ?T @ ?L @ ?M @ g @ ?E"
    using check_evs_append [of pset fmt ?pk "?T @ ?L @ ?M @ g"] by simp
  have ii: "check_ivs pv species pset fmt ?pk (?T @ ?L @ ?M @ g @ ?E) =
            Inr (?T @ ?L @ ?M @ g @ ?E @ i)"
    using check_ivs_append [of pv species pset fmt ?pk "?T @ ?L @ ?M @ g @ ?E"] i by simp
  have n: "check_nature pv pset fmt ?pk (?T @ ?L @ ?M @ g @ ?E @ i) =
           ?T @ ?L @ ?M @ g @ ?E @ i @ ?N"
    using check_nature_append [of pv pset fmt ?pk "?T @ ?L @ ?M @ g @ ?E @ i"] by simp
  have a: "check_ability pv rules pset fmt ?pk (?T @ ?L @ ?M @ g @ ?E @ i @ ?N) =
           ?T @ ?L @ ?M @ g @ ?E @ i @ ?N @ ?A"
    using check_ability_append [of pv rules pset fmt ?pk "?T @ ?L @ ?M @ g @ ?E @ i @ ?N"]
    by simp
  have it: "check_item pv species pset fmt ?pk (?T @ ?L @ ?M @ g @ ?E @ i @ ?N @ ?A) =
           ?T @ ?L @ ?M @ g @ ?E @ i @ ?N @ ?A @ ?I"
    using check_item_append [of pv species pset fmt ?pk "?T @ ?L @ ?M @ g @ ?E @ i @ ?N @ ?A"]
    by simp
  show ?thesis
    by (simp add: validate_species_def Let_def l m gg e ii n a it)
qed

lemma validate_sections:
  assumes r: "Rules_get pv fmt = Some rules"
    and s: "Species_get pv (set_species pset) (fmt_gen fmt) = Some species"
    and c: "species_complete species pset fmt"
  shows "\<exists>g i. check_gender pv species pset fmt (pokemon_of pset) [] = Inr g \<and>
           check_ivs pv species pset fmt (pokemon_of pset) [] = Inr i \<and>
           validate pv pset fmt =
             Inr (check_tier species (pokemon_of pset) [] @
                  check_level pv rules species pset (pokemon_of pset) [] @
                  check_moves pv rules pset fmt (pokemon_of pset) [] @
                  g @
                  check_evs pset fmt (pokemon_of pset) [] @
                  i @
                  check_nature pv pset fmt (pokemon_of pset) [] @
                  check_ability pv rules pset fmt (pokemon_of pset) [] @
                  check_item pv species pset fmt (pokemon_of pset) [])"
proof -
  obtain g where g: "check_gender pv species pset fmt (pokemon_of pset) [] = Inr g"
    using check_gender_complete [OF c] by blast
  obtain i where i: "check_ivs pv species pset fmt (pokemon_of pset) [] = Inr i"
    using check_ivs_complete [OF c] by blast
  have "validate pv pset fmt = validate_species pv rules species pset fmt"
    by (simp add: validate_def r s)
  with validate_species_sections [OF g i, of rules] g i show ?thesis by simp
qed

lemma validate_throws_iff:
  assumes r: "Rules_get pv fmt = Some rules"
    and s: "Species_get pv (set_species pset) (fmt_gen fmt) = Some species"
  shows "validate pv pset fmt = Inl TypeError \<longleftrightarrow> \<not> species_complete species pset fmt"
proof (cases "species_complete species pset fmt")
  case True
  from validate_sections [OF r s True] show ?thesis using True by auto
next
  case False
  have v: "validate pv pset fmt = validate_species pv rules species pset fmt"
    by (simp add: validate_def r s)
  show ?thesis
  proof (cases "truthy_str (set_gender pset) \<and> fmt_gen fmt = 2 \<and> sp_genderRatio species = None")
    case True
    then have "check_gender pv species pset fmt pk ps = Inl TypeError" for pk ps
      by (simp add: check_gender_def Let_def)
    then show ?thesis using False by (simp add: v validate_species_def Let_def)
  next
    case False
    with \<open>\<not> species_complete species pset fmt\<close>
    have ge: "fmt_gen fmt \<ge> 6" and eg: "sp_eggGroups species = None"
      by (auto simp add: species_complete_def)
    have "check_ivs pv species pset fmt pk ps = Inl TypeError" for pk ps
      using ge eg by (simp add: check_ivs_def isLegendary_def)
    moreover have "\<exists>g. check_gender pv species pset fmt pk ps = Inr g" for pk ps
      using ge by (cases "sp_genderRatio species") (simp_all add: check_gender_def Let_def)
    then obtain g where "check_gender pv species pset fmt (pokemon_of pset)
        (check_moves pv rules pset fmt (pokemon_of pset)
          (check_level pv rules species pset (pokemon_of pset)
            (check_tier species (pokemon_of pset) []))) = Inr g"
      by blast
    ultimately show ?thesis
      using \<open>\<not> species_complete species pset fmt\<close>
      by (simp add: v validate_species_def Let_def)
  qed
qed

lemma moves_loop_Cons_None:
  assumes "Moves_get pv m (fmt_gen fmt) = None"
  shows "moves_loop pv rules fmt pokemon (m # ms) (tbl, []) =
         (fst (moves_loop pv rules fmt pokemon ms (tbl, [])),
          InvalidMove m (fmt_gen fmt) # snd (moves_loop pv rules fmt pokemon ms (tbl, [])))"
  using assms moves_loop_append [of pv rules fmt pokemon ms tbl "[InvalidMove m (fmt_gen fmt)]"]
  by simp

lemma moves_loop_Cons_Some:
  assumes "Moves_get pv m (fmt_gen fmt) = Some move"
  shows "moves_loop pv rules fmt pokemon (m # ms) (tbl, []) =
         (fst (moves_loop pv rules fmt pokemon ms (AList.update (mv_id move) move tbl, [])),
          (if map_of tbl (mv_id move) \<noteq> None then [DuplicateMove pokemon move] else []) @
          (case move_clause_ban rules move of None \<Rightarrow> [] | Some p \<Rightarrow> [p]) @
          snd (moves_loop pv rules fmt pokemon ms (AList.update (mv_id move) move tbl, [])))"
proof -
  let ?d = "(if map_of tbl (mv_id move) \<noteq> None then [DuplicateMove pokemon move] else []) @
          (case move_clause_ban rules move of None \<Rightarrow> [] | Some p \<Rightarrow> [p])"
  have "moves_loop pv rules fmt pokemon (m # ms) (tbl, []) =
        moves_loop pv rules fmt pokemon ms (AList.update (mv_id move) move tbl, ?d)"
    using assms by (auto simp add: Let_def move_clause_ban_def)
  then show ?thesis
    using moves_loop_append [of pv rules fmt pokemon ms "AList.update (mv_id move) move tbl" ?d]
    by simp
qed

lemma move_clause_ban_block: "move_clause_ban rules move = Some p \<Longrightarrow> block_of p = Moves"
  by (auto simp add: move_clause_ban_def split: if_splits)

lemma moves_loop_block:
  "p \<in> set (snd (moves_loop pv rules fmt pokemon ms (tbl, []))) \<Longrightarrow> block_of p = Moves"
proof (induction ms arbitrary: tbl)
  case Nil
  then show ?case by simp
next
  case (Cons m ms)
  show ?case
  proof (cases "Moves_get pv m (fmt_gen fmt)")
    case None
    with Cons show ?thesis by (auto simp add: moves_loop_Cons_None simp del: moves_loop.simps)
  next
    case (Some move)
    with Cons show ?thesis
      by (auto simp add: moves_loop_Cons_Some move_clause_ban_block
               simp del: moves_loop.simps split: if_splits option.splits)
  qed
qed

lemma check_moves_Nil:
  "check_moves pv rules pset fmt pokemon [] =
     (if set_moves pset \<noteq> [] then
        (if length (set_moves pset) > 4 then [MoreThanFourMoves pokemon] else []) @
        snd (moves_loop pv rules fmt pokemon (set_moves pset) ([], [])) @
        (if fmt_gen fmt = 2 \<and>
            checkSleepTrap (fst (moves_loop pv rules fmt pokemon (set_moves pset) ([], [])))
         then [SleepTrap pokemon (fmt_gen fmt)] else []) @
        (if ''Baton Pass'' \<in> clauses rules \<and>
            map_of (fst (moves_loop pv rules fmt pokemon (set_moves pset) ([], [])))
              ''batonpass'' \<noteq> None \<and>
            checkBatonPass pv pset fmt
              (fst (moves_loop pv rules fmt pokemon (set_moves pset) ([], [])))
         then [BatonPassClause pokemon] else [])
      else [NoMoves pokemon])"
proof -
  obtain t qs where l: "moves_loop pv rules fmt pokemon (set_moves pset) ([], []) = (t, qs)"
    by (cases "moves_loop pv rules fmt pokemon (set_moves pset) ([], [])")
  have a: "moves_loop pv rules fmt pokemon (set_moves pset) ([], rs) = (t, rs @ qs)" for rs
    using moves_loop_append [of pv rules fmt pokemon "set_moves pset" "[]" rs] l by simp
  show ?thesis
    unfolding check_moves_def Let_def a l
    by auto
qed

lemma check_tier_block: "p \<in> set (check_tier species pokemon []) \<Longrightarrow> block_of p = Tier"
  by (auto simp add: check_tier_def split: if_splits)

lemma check_level_block:
  "p \<in> set (check_level pv rules species pset pokemon []) \<Longrightarrow> block_of p = Level"
  by (cases "set_level pset") (auto simp add: check_level_def Let_def split: if_splits)

lemma check_moves_block:
  "p \<in> set (check_moves pv rules pset fmt pokemon []) \<Longrightarrow> block_of p = Moves"
  by (auto simp add: check_moves_Nil moves_loop_block split: if_splits)

lemma check_gender_block:
  "check_gender pv species pset fmt pokemon [] = Inr g \<Longrightarrow> p \<in> set g \<Longrightarrow> block_of p = Gender"
  by (cases "sp_genderRatio species") (auto simp add: check_gender_def Let_def split: if_splits)

lemma check_evs_block: "p \<in> set (check_evs pset fmt pokemon []) \<Longrightarrow> block_of p = EVs"
  by (auto simp add: check_evs_def split: if_splits)

lemma check_ivs_block:
  "check_ivs pv species pset fmt pokemon [] = Inr i \<Longrightarrow> p \<in> set i \<Longrightarrow> block_of p = IVs"
  by (cases "isLegendary species (set_shiny pset)")
     (auto simp add: check_ivs_def Let_def split: if_splits)

lemma check_nature_block:
  "p \<in> set (check_nature pv pset fmt pokemon []) \<Longrightarrow> block_of p = Nature"
  by (cases "Natures_get pv (str_of (set_nature pset))")
     (auto simp add: check_nature_def split: if_splits)

lemma check_ability_block:
  "p \<in> set (check_ability pv rules pset fmt pokemon []) \<Longrightarrow> block_of p = Ability"
  by (cases "Items_get pv (set_ability pset) (fmt_gen fmt)")
     (auto simp add: check_ability_def Let_def split: if_splits)

lemma check_item_block:
  "p \<in> set (check_item pv species pset fmt pokemon []) \<Longrightarrow> block_of p = Item"
  by (cases "Items_get pv (set_item pset) (fmt_gen fmt)")
     (auto simp add: check_item_def Let_def split: if_splits)

lemma filter_block:
  assumes "\<And>p. p \<in> set xs \<Longrightarrow> block_of p = b"
  shows "filter (\<lambda>p. block_of p = c) xs = (if c = b then xs else [])"
  using assms by (induction xs) auto

lemma validate_returns:
  assumes r: "Rules_get pv fmt = Some rules"
    and s: "Species_get pv (set_species pset) (fmt_gen fmt) = Some species"
    and c: "species_complete species pset fmt"
  shows "\<exists>problems. validate pv pset fmt = Inr problems"
  using validate_sections [OF r s c] by blast

lemma validate_blocks:
  assumes r: "Rules_get pv fmt = Some rules"
    and s: "Species_get pv (set_species pset) (fmt_gen fmt) = Some species"
    and v: "validate pv pset fmt = Inr problems"
  shows "filter (\<lambda>p. block_of p = Tier) problems = check_tier species (pokemon_of pset) []"
    and "filter (\<lambda>p. block_of p = Level) problems =
         check_level pv rules species pset (pokemon_of pset) []"
    and "filter (\<lambda>p. block_of p = Moves) problems =
         check_moves pv rules pset fmt (pokemon_of pset) []"
    and "check_gender pv species pset fmt (pokemon_of pset) [] =
         Inr (filter (\<lambda>p. block_of p = Gender) problems)"
    and "filter (\<lambda>p. block_of p = EVs) problems = check_evs pset fmt (pokemon_of pset) []"
    and "check_ivs pv species pset fmt (pokemon_of pset) [] =
         Inr (filter (\<lambda>p. block_of p = IVs) problems)"
    and "filter (\<lambda>p. block_of p = Nature) problems =
         check_nature pv pset fmt (pokemon_of pset) []"
    and "filter (\<lambda>p. block_of p = Ability) problems =
         check_ability pv rules pset fmt (pokemon_of pset) []"
    and "filter (\<lambda>p. block_of p = Item) problems =
         check_item pv species pset fmt (pokemon_of pset) []"
    and "filter (\<lambda>p. block_of p = Resolution) problems = []"
proof -
  have c: "species_complete species pset fmt"
    using validate_throws_iff [OF r s] v by auto
  from validate_sections [OF r s c] v obtain g i
    where g: "check_gender pv species pset fmt (pokemon_of pset) [] = Inr g"
      and i: "check_ivs pv species pset fmt (pokemon_of pset) [] = Inr i"
      and p: "problems =
             check_tier species (pokemon_of pset) [] @
             check_level pv rules species pset (pokemon_of pset) [] @
             check_moves pv rules pset fmt (pokemon_of pset) [] @
             g @
             check_evs pset fmt (pokemon_of pset) [] @
             i @
             check_nature pv pset fmt (pokemon_of pset) [] @
             check_ability pv rules pset fmt (pokemon_of pset) [] @
             check_item pv species pset fmt (pokemon_of pset) []"
    by auto
  note fb =
    filter_block [of "check_tier species (pokemon_of pset) []" Tier, OF check_tier_block]
    filter_block [of "check_level pv rules species pset (pokemon_of pset) []" Level,
      OF check_level_block]
    filter_block [of "check_moves pv rules pset fmt (pokemon_of pset) []" Moves,
      OF check_moves_block]
    filter_block [of g Gender, OF check_gender_block [OF g]]
    filter_block [of "check_evs pset fmt (pokemon_of pset) []" EVs, OF check_evs_block]
    filter_block [of i IVs, OF check_ivs_block [OF i]]
    filter_block [of "check_nature pv pset fmt (pokemon_of pset) []" Nature,
      OF check_nature_block]
    filter_block [of "check_ability pv rules pset fmt (pokemon_of pset) []" Ability,
      OF check_ability_block]
    filter_block [of "check_item pv species pset fmt (pokemon_of pset) []" Item,
      OF check_item_block]
  show "filter (\<lambda>p. block_of p = Tier) problems = check_tier species (pokemon_of pset) []"
    by (simp add: p fb)
  show "filter (\<lambda>p. block_of p = Level) problems =
         check_level pv rules species pset (pokemon_of pset) []"
    by (simp add: p fb)
  show "filter (\<lambda>p. block_of p = Moves) problems =
         check_moves pv rules pset fmt (pokemon_of pset) []"
    by (simp add: p fb)
  show "check_gender pv species pset fmt (pokemon_of pset) [] =
         Inr (filter (\<lambda>p. block_of p = Gender) problems)"
    by (simp add: p fb g)
  show "filter (\<lambda>p. block_of p = EVs) problems = check_evs pset fmt (pokemon_of pset) []"
    by (simp add: p fb)
  show "check_ivs pv species pset fmt (pokemon_of pset) [] =
         Inr (filter (\<lambda>p. block_of p = IVs) problems)"
    by (simp add: p fb i)
  show "filter (\<lambda>p. block_of p = Nature) problems =
         check_nature pv pset fmt (pokemon_of pset) []"
    by (simp add: p fb)
  show "filter (\<lambda>p. block_of p = Ability) problems =
         check_ability pv rules pset fmt (pokemon_of pset) []"
    by (simp add: p fb)
  show "filter (\<lambda>p. block_of p = Item) problems =
         check_item pv species pset fmt (pokemon_of pset) []"
    by (simp add: p fb)
  show "filter (\<lambda>p. block_of p = Resolution) problems = []"
    by (simp add: p fb)
qed

lemma in_block:
  assumes "filter (\<lambda>p. block_of p = b) problems = xs"
  shows "p \<in> set problems \<and> block_of p = b \<longleftrightarrow> p \<in> set xs"
proof -
  have "set xs = {p \<in> set problems. block_of p = b}"
    using assms [symmetric] by simp
  then show ?thesis by simp
qed

lemma moves_loop_table:
  "fst (moves_loop pv rules fmt pokemon ms (tbl, ps)) =
   fold (\<lambda>move. AList.update (mv_id move) move)
     (List.map_filter (\<lambda>m. Moves_get pv m (fmt_gen fmt)) ms) tbl"
proof (induction ms arbitrary: tbl ps)
  case Nil
  show ?case by (simp add: List.map_filter_simps)
next
  case (Cons m ms)
  show ?case
    by (cases "Moves_get pv m (fmt_gen fmt)")
       (simp_all add: List.map_filter_simps Cons.IH Let_def)
qed

lemma moves_loop_moveTable:
  "fst (moves_loop pv rules fmt pokemon (set_moves pset) ([], [])) = moveTable_of pv pset fmt"
  by (simp add: moves_loop_table moveTable_of_def resolved_moves_def)

section \<open>Resolution of the format and of the species\<close>

text \<open>
  Claim C2. When the rules of the format do not resolve, \<^verbatim>\<open>validate\<close> returns the one
  problem that names the format; when they do and the species does not resolve for the
  generation of the format, it returns the one problem that names the species and the
  generation; no other check runs in either case. When both resolve (and the species
  has the data that the code reads without a test), the result is the concatenation of
  the problems of the nine blocks, each computed from the empty array: no block stops
  another.
\<close>

theorem validate_short_circuits_then_accumulates:
  "(Rules_get pv fmt = None \<longrightarrow> validate pv pset fmt = Inr [InvalidFormat fmt]) \<and>
   (Rules_get pv fmt \<noteq> None \<and> Species_get pv (set_species pset) (fmt_gen fmt) = None \<longrightarrow>
      validate pv pset fmt = Inr [InvalidSpecies (set_species pset) (fmt_gen fmt)]) \<and>
   (\<forall>rules species.
      Rules_get pv fmt = Some rules \<and>
      Species_get pv (set_species pset) (fmt_gen fmt) = Some species \<and>
      species_complete species pset fmt \<longrightarrow>
      (\<exists>g i. check_gender pv species pset fmt (pokemon_of pset) [] = Inr g \<and>
             check_ivs pv species pset fmt (pokemon_of pset) [] = Inr i \<and>
             validate pv pset fmt =
               Inr (check_tier species (pokemon_of pset) [] @
                    check_level pv rules species pset (pokemon_of pset) [] @
                    check_moves pv rules pset fmt (pokemon_of pset) [] @
                    g @
                    check_evs pset fmt (pokemon_of pset) [] @
                    i @
                    check_nature pv pset fmt (pokemon_of pset) [] @
                    check_ability pv rules pset fmt (pokemon_of pset) [] @
                    check_item pv species pset fmt (pokemon_of pset) [])))"
proof (intro conjI allI impI)
  assume "Rules_get pv fmt = None"
  then show "validate pv pset fmt = Inr [InvalidFormat fmt]"
    by (simp add: validate_def)
next
  assume "Rules_get pv fmt \<noteq> None \<and> Species_get pv (set_species pset) (fmt_gen fmt) = None"
  then show "validate pv pset fmt = Inr [InvalidSpecies (set_species pset) (fmt_gen fmt)]"
    by (auto simp add: validate_def)
next
  fix rules species
  assume "Rules_get pv fmt = Some rules \<and>
      Species_get pv (set_species pset) (fmt_gen fmt) = Some species \<and>
      species_complete species pset fmt"
  then show "\<exists>g i. check_gender pv species pset fmt (pokemon_of pset) [] = Inr g \<and>
             check_ivs pv species pset fmt (pokemon_of pset) [] = Inr i \<and>
             validate pv pset fmt =
               Inr (check_tier species (pokemon_of pset) [] @
                    check_level pv rules species pset (pokemon_of pset) [] @
                    check_moves pv rules pset fmt (pokemon_of pset) [] @
                    g @
                    check_evs pset fmt (pokemon_of pset) [] @
                    i @
                    check_nature pv pset fmt (pokemon_of pset) [] @
                    check_ability pv rules pset fmt (pokemon_of pset) [] @
                    check_item pv species pset fmt (pokemon_of pset) [])"
    using validate_sections [of pv fmt rules pset species] by blast
qed

theorem validate_short_circuits_then_accumulates_witness:
  "Rules_get ex_providers \<lparr>fmt_id = ''uber'', fmt_gen = 7\<rparr> = None \<and>
   validate ex_providers (ex_set ''Diancie'' [''Tackle'']) \<lparr>fmt_id = ''uber'', fmt_gen = 7\<rparr> =
     Inr [InvalidFormat \<lparr>fmt_id = ''uber'', fmt_gen = 7\<rparr>] \<and>
   Rules_get ex_providers gen7ou \<noteq> None \<and>
   Species_get ex_providers ''Missingno'' 7 = None \<and>
   validate ex_providers (ex_set ''Missingno'' [''Tackle'']) gen7ou =
     Inr [InvalidSpecies ''Missingno'' 7] \<and>
   Species_get ex_providers ''Diancie'' 7 = Some ex_diancie \<and>
   species_complete ex_diancie
     ((ex_set ''Diancie'' [''Fissure'', ''Bite''])\<lparr>set_ivs := all_stats 0\<rparr>) gen7ou \<and>
   validate ex_providers
     ((ex_set ''Diancie'' [''Fissure'', ''Bite''])\<lparr>set_ivs := all_stats 0\<rparr>) gen7ou =
     Inr [OHKOClause ''Fissure'', InvalidMove ''Bite'' 7, LegendaryIVs ''Diancie'' 7,
          NatureRequired ''Diancie'' 7, InvalidAbility None 7]"
proof -
  let ?uber = "\<lparr>fmt_id = ''uber'', fmt_gen = 7\<rparr>"
  let ?s1 = "ex_set ''Diancie'' [''Tackle'']"
  let ?s2 = "ex_set ''Missingno'' [''Tackle'']"
  let ?s3 = "(ex_set ''Diancie'' [''Fissure'', ''Bite''])\<lparr>set_ivs := all_stats 0\<rparr>"
  let ?ou = "\<lparr>rules_id = ''ou'', clauses = ex_clauses\<rparr>"
  have r1: "Rules_get ex_providers ?uber = None" by code_simp
  have r2: "Rules_get ex_providers gen7ou = Some ?ou" by code_simp
  have s2: "Species_get ex_providers (set_species ?s2) (fmt_gen gen7ou) = None" by code_simp
  have s3: "Species_get ex_providers (set_species ?s3) (fmt_gen gen7ou) = Some ex_diancie"
    by code_simp
  have c3: "species_complete ex_diancie ?s3 gen7ou" by code_simp
  have a: "validate ex_providers ?s1 ?uber = Inr [InvalidFormat ?uber]"
    using validate_short_circuits_then_accumulates [of ex_providers ?uber ?s1] r1 by blast
  have b: "validate ex_providers ?s2 gen7ou = Inr [InvalidSpecies ''Missingno'' 7]"
    using validate_short_circuits_then_accumulates [of ex_providers gen7ou ?s2] r2 s2
    by (simp add: ex_set_def gen7ou_def)
  obtain g i where g: "check_gender ex_providers ex_diancie ?s3 gen7ou (pokemon_of ?s3) [] = Inr g"
    and i: "check_ivs ex_providers ex_diancie ?s3 gen7ou (pokemon_of ?s3) [] = Inr i"
    and v: "validate ex_providers ?s3 gen7ou =
               Inr (check_tier ex_diancie (pokemon_of ?s3) [] @
                    check_level ex_providers ?ou ex_diancie ?s3 (pokemon_of ?s3) [] @
                    check_moves ex_providers ?ou ?s3 gen7ou (pokemon_of ?s3) [] @
                    g @
                    check_evs ?s3 gen7ou (pokemon_of ?s3) [] @
                    i @
                    check_nature ex_providers ?s3 gen7ou (pokemon_of ?s3) [] @
                    check_ability ex_providers ?ou ?s3 gen7ou (pokemon_of ?s3) [] @
                    check_item ex_providers ex_diancie ?s3 gen7ou (pokemon_of ?s3) [])"
    using validate_short_circuits_then_accumulates [of ex_providers gen7ou ?s3] r2 s3 c3
    by blast
  have "check_gender ex_providers ex_diancie ?s3 gen7ou (pokemon_of ?s3) [] = Inr []"
    by code_simp
  with g have g': "g = []" by simp
  have "check_ivs ex_providers ex_diancie ?s3 gen7ou (pokemon_of ?s3) [] =
        Inr [LegendaryIVs ''Diancie'' 7]"
    by code_simp
  with i have i': "i = [LegendaryIVs ''Diancie'' 7]" by simp
  have t: "check_tier ex_diancie (pokemon_of ?s3) [] = []" by code_simp
  have l: "check_level ex_providers ?ou ex_diancie ?s3 (pokemon_of ?s3) [] = []" by code_simp
  have m: "check_moves ex_providers ?ou ?s3 gen7ou (pokemon_of ?s3) [] =
           [OHKOClause ''Fissure'', InvalidMove ''Bite'' 7]" by code_simp
  have e: "check_evs ?s3 gen7ou (pokemon_of ?s3) [] = []" by code_simp
  have n: "check_nature ex_providers ?s3 gen7ou (pokemon_of ?s3) [] =
           [NatureRequired ''Diancie'' 7]" by code_simp
  have ab: "check_ability ex_providers ?ou ?s3 gen7ou (pokemon_of ?s3) [] =
           [InvalidAbility None 7]" by code_simp
  have it: "check_item ex_providers ex_diancie ?s3 gen7ou (pokemon_of ?s3) [] = []" by code_simp
  have c: "validate ex_providers ?s3 gen7ou =
     Inr [OHKOClause ''Fissure'', InvalidMove ''Bite'' 7, LegendaryIVs ''Diancie'' 7,
          NatureRequired ''Diancie'' 7, InvalidAbility None 7]"
    unfolding v g' i' t l m e n ab it by simp
  have s2': "Species_get ex_providers ''Missingno'' 7 = None" by code_simp
  have s3': "Species_get ex_providers ''Diancie'' 7 = Some ex_diancie" by code_simp
  from r1 r2 a b c c3 s2' s3' show ?thesis by simp
qed

text \<open>
  With the species lookup as \<^verbatim>\<open>src/species.ts\<close> has it today, every call ends at one of
  the two early returns.
\<close>

lemma validate_species_stub:
  "validate (pv\<lparr>Species_get := Species_get_stub\<rparr>) pset fmt =
     Inr (case Rules_get pv fmt of
            None \<Rightarrow> [InvalidFormat fmt]
          | Some rules \<Rightarrow> [InvalidSpecies (set_species pset) (fmt_gen fmt)])"
  by (cases "Rules_get pv fmt") (simp_all add: validate_def Species_get_stub_def)

section \<open>The level\<close>

text \<open>
  Claim C10. A set whose level is absent or zero gets no level problem in any format.
  The Little Cup problem is reported exactly when the rules are Little Cup and the level
  is given and greater than 5; the level 100 problem exactly when the rules are not
  Little Cup and the level is given and greater than 100.
\<close>

theorem level_problem_needs_level_over_cap:
  assumes v: "validate pv pset fmt = Inr problems"
  shows "(set_level pset = None \<or> set_level pset = Some 0 \<longrightarrow>
            \<not> list_ex is_level_problem problems) \<and>
         (LittleCupLevel pk \<in> set problems \<longleftrightarrow>
            (\<exists>rules species l.
               Rules_get pv fmt = Some rules \<and>
               Species_get pv (set_species pset) (fmt_gen fmt) = Some species \<and>
               Rules_isLittleCup pv rules \<and> set_level pset = Some l \<and> l > 5 \<and>
               pk = pokemon_of pset)) \<and>
         (LevelOver100 pk \<in> set problems \<longleftrightarrow>
            (\<exists>rules species l.
               Rules_get pv fmt = Some rules \<and>
               Species_get pv (set_species pset) (fmt_gen fmt) = Some species \<and>
               \<not> Rules_isLittleCup pv rules \<and> set_level pset = Some l \<and> l > 100 \<and>
               pk = pokemon_of pset))"
proof -
  have key: "p \<in> set problems \<and> block_of p = Level \<longleftrightarrow>
             (\<exists>rules species.
                Rules_get pv fmt = Some rules \<and>
                Species_get pv (set_species pset) (fmt_gen fmt) = Some species \<and>
                p \<in> set (check_level pv rules species pset (pokemon_of pset) []))" for p
  proof (cases "Rules_get pv fmt")
    case None
    with v have "problems = [InvalidFormat fmt]" by (simp add: validate_def)
    with None show ?thesis by auto
  next
    case r: (Some rules)
    show ?thesis
    proof (cases "Species_get pv (set_species pset) (fmt_gen fmt)")
      case None
      with v r have "problems = [InvalidSpecies (set_species pset) (fmt_gen fmt)]"
        by (simp add: validate_def)
      with None show ?thesis by auto
    next
      case s: (Some species)
      from in_block [OF validate_blocks(2) [OF r s v], of p] r s show ?thesis by simp
    qed
  qed
  have lc: "LittleCupLevel x \<in> set problems \<longleftrightarrow>
            (\<exists>rules species l.
               Rules_get pv fmt = Some rules \<and>
               Species_get pv (set_species pset) (fmt_gen fmt) = Some species \<and>
               Rules_isLittleCup pv rules \<and> set_level pset = Some l \<and> l > 5 \<and>
               x = pokemon_of pset)" for x
    using key [of "LittleCupLevel x"]
    by (cases "set_level pset") (auto simp add: check_level_def Let_def split: if_splits)
  have hi: "LevelOver100 x \<in> set problems \<longleftrightarrow>
            (\<exists>rules species l.
               Rules_get pv fmt = Some rules \<and>
               Species_get pv (set_species pset) (fmt_gen fmt) = Some species \<and>
               \<not> Rules_isLittleCup pv rules \<and> set_level pset = Some l \<and> l > 100 \<and>
               x = pokemon_of pset)" for x
    using key [of "LevelOver100 x"]
    by (cases "set_level pset") (auto simp add: check_level_def Let_def split: if_splits)
  have "\<not> list_ex is_level_problem problems"
    if l: "set_level pset = None \<or> set_level pset = Some 0"
  proof
    assume "list_ex is_level_problem problems"
    then obtain p where p: "p \<in> set problems" and i: "is_level_problem p"
      by (auto simp add: list_ex_iff)
    from i obtain x where "p = LittleCupLevel x \<or> p = LevelOver100 x"
      by (cases p) simp_all
    with p lc [of x] hi [of x] l show False by auto
  qed
  with lc [of pk] hi [of pk] show ?thesis by blast
qed

theorem level_problem_needs_level_over_cap_witness:
  "validate ex_providers
     ((ex_set ''Pichu'' [''Tackle''])\<lparr>set_level := Some 0, set_nature := Some ''Adamant''\<rparr>)
     gen7lc = Inr [InvalidAbility None 7] \<and>
   set_level ((ex_set ''Pichu'' [''Tackle''])\<lparr>set_level := Some 0, set_nature := Some ''Adamant''\<rparr>)
     = Some 0 \<and>
   \<not> list_ex is_level_problem [InvalidAbility None 7] \<and>
   validate ex_providers
     ((ex_set ''Pichu'' [''Tackle''])\<lparr>set_level := Some 6, set_nature := Some ''Adamant''\<rparr>)
     gen7lc = Inr [LittleCupLevel ''Pichu'', InvalidAbility None 7] \<and>
   LittleCupLevel ''Pichu'' \<in> set [LittleCupLevel ''Pichu'', InvalidAbility None 7]"
proof -
  let ?s0 = "(ex_set ''Pichu'' [''Tackle''])\<lparr>set_level := Some 0, set_nature := Some ''Adamant''\<rparr>"
  let ?s6 = "(ex_set ''Pichu'' [''Tackle''])\<lparr>set_level := Some 6, set_nature := Some ''Adamant''\<rparr>"
  have v0: "validate ex_providers ?s0 gen7lc = Inr [InvalidAbility None 7]"
    by code_simp
  have v6: "validate ex_providers ?s6 gen7lc = Inr [LittleCupLevel ''Pichu'', InvalidAbility None 7]"
    by code_simp
  have l0: "set_level ?s0 = Some 0" by (simp add: ex_set_def)
  have "\<not> list_ex is_level_problem [InvalidAbility None 7]"
    using level_problem_needs_level_over_cap [OF v0, of "''Pichu''"] l0 by blast
  moreover have "LittleCupLevel ''Pichu'' \<in> set [LittleCupLevel ''Pichu'', InvalidAbility None 7]"
    by simp
  ultimately show ?thesis using v0 v6 l0 by blast
qed

section \<open>The moves\<close>

subsection \<open>Sleep and trap in generation 2\<close>

lemma moves_loop_kinds:
  "p \<in> set (snd (moves_loop pv rules fmt pokemon ms (tbl, []))) \<Longrightarrow>
   (\<exists>m g. p = InvalidMove m g) \<or> (\<exists>pk mv. p = DuplicateMove pk mv) \<or> is_move_clause_problem p"
proof (induction ms arbitrary: tbl)
  case Nil
  then show ?case by simp
next
  case (Cons m ms)
  show ?case
  proof (cases "Moves_get pv m (fmt_gen fmt)")
    case None
    with Cons show ?thesis
      by (auto simp add: moves_loop_Cons_None simp del: moves_loop.simps)
  next
    case (Some move)
    have "is_move_clause_problem q" if "move_clause_ban rules move = Some q" for q
      using that by (auto simp add: move_clause_ban_def split: if_splits)
    with Some Cons show ?thesis
      by (auto simp add: moves_loop_Cons_Some simp del: moves_loop.simps
               split: if_splits option.splits)
  qed
qed

lemma sleepTrap_fold:
  "fold sleepTrap_step moves st =
     (fst st \<or> (\<exists>e\<in>set moves. mv_id (snd e) \<in> SLEEP_MOVES),
      snd st \<or> (\<exists>e\<in>set moves. mv_id (snd e) \<notin> SLEEP_MOVES \<and> mv_id (snd e) \<in> TRAP_MOVES))"
proof (induction moves arbitrary: st)
  case Nil
  show ?case by simp
next
  case (Cons e moves)
  show ?case
    unfolding fold_simps Cons.IH
    by (auto simp add: sleepTrap_step_def)
qed

lemma trap_not_sleep: "i \<in> TRAP_MOVES \<Longrightarrow> i \<notin> SLEEP_MOVES"
  by (auto simp add: TRAP_MOVES_def SLEEP_MOVES_def)

lemma checkSleepTrap_iff:
  "checkSleepTrap moves \<longleftrightarrow>
     (\<exists>e\<in>set moves. mv_id (snd e) \<in> SLEEP_MOVES) \<and>
     (\<exists>e\<in>set moves. mv_id (snd e) \<in> TRAP_MOVES)"
  using trap_not_sleep by (auto simp add: checkSleepTrap_def sleepTrap_fold Let_def)

lemma update_keys_are_ids:
  assumes "\<forall>e\<in>set tbl. fst e = mv_id (snd e)"
  shows "\<forall>e\<in>set (AList.update (mv_id move) move tbl). fst e = mv_id (snd e)"
  using assms by (induction tbl) auto

lemma fold_update_keys_are_ids:
  assumes "\<forall>e\<in>set tbl. fst e = mv_id (snd e)"
  shows "\<forall>e\<in>set (fold (\<lambda>move. AList.update (mv_id move) move) xs tbl). fst e = mv_id (snd e)"
  using assms
proof (induction xs arbitrary: tbl)
  case Nil
  then show ?case by simp
next
  case (Cons x xs)
  from Cons.IH [OF update_keys_are_ids [OF Cons.prems]] show ?case by simp
qed

lemma fold_update_keys:
  "fst ` set (fold (\<lambda>move. AList.update (mv_id move) move) xs tbl) =
   fst ` set tbl \<union> mv_id ` set xs"
proof (induction xs arbitrary: tbl)
  case Nil
  show ?case by simp
next
  case (Cons x xs)
  show ?case
    unfolding fold_simps Cons.IH AList.dom_update by auto
qed

lemma moveTable_ids:
  "(\<exists>e\<in>set (moveTable_of pv pset fmt). mv_id (snd e) \<in> S) \<longleftrightarrow>
   (\<exists>m\<in>set (resolved_moves pv pset fmt). mv_id m \<in> S)"
proof -
  let ?t = "moveTable_of pv pset fmt"
  have k: "\<forall>e\<in>set ?t. fst e = mv_id (snd e)"
    unfolding moveTable_of_def by (rule fold_update_keys_are_ids) simp
  have d: "fst ` set ?t = mv_id ` set (resolved_moves pv pset fmt)"
    unfolding moveTable_of_def by (simp add: fold_update_keys)
  have "(\<exists>e\<in>set ?t. mv_id (snd e) \<in> S) \<longleftrightarrow> (\<exists>i\<in>fst ` set ?t. i \<in> S)"
    using k by force
  also have "\<dots> \<longleftrightarrow> (\<exists>m\<in>set (resolved_moves pv pset fmt). mv_id m \<in> S)"
    unfolding d by blast
  finally show ?thesis .
qed

lemma check_moves_sleep_trap:
  "list_ex is_sleep_trap_problem (check_moves pv rules pset fmt pokemon []) \<longleftrightarrow>
   set_moves pset \<noteq> [] \<and> fmt_gen fmt = 2 \<and> checkSleepTrap (moveTable_of pv pset fmt)"
proof -
  have n: "\<not> is_sleep_trap_problem p"
    if "p \<in> set (snd (moves_loop pv rules fmt pokemon (set_moves pset) ([], [])))" for p
    using moves_loop_kinds [OF that] by (cases p) auto
  show ?thesis
    unfolding check_moves_Nil moves_loop_moveTable list_ex_iff
    using n by auto
qed

lemma resolved_moves_Nil: "set_moves pset = [] \<Longrightarrow> resolved_moves pv pset fmt = []"
  by (simp add: resolved_moves_def List.map_filter_simps)

text \<open>
  Claim C5. On a resolved species, \<^verbatim>\<open>validate\<close> reports the sleep and trap
  combination exactly when the generation of the format is 2 and the resolved moves of
  the set contain a move with id in {hypnosis, lovelykiss, sing, sleeppowder, spore} and
  a move with id in {meanlook, spiderweb}. A sleep move alone or a trap move alone does
  not produce it, and no other generation does.
\<close>

theorem sleep_trap_problem_iff:
  assumes r: "Rules_get pv fmt = Some rules"
    and s: "Species_get pv (set_species pset) (fmt_gen fmt) = Some species"
    and c: "species_complete species pset fmt"
  shows "\<exists>problems. validate pv pset fmt = Inr problems \<and>
           (list_ex is_sleep_trap_problem problems \<longleftrightarrow>
              fmt_gen fmt = 2 \<and>
              (\<exists>m\<in>set (resolved_moves pv pset fmt). mv_id m \<in> SLEEP_MOVES) \<and>
              (\<exists>m\<in>set (resolved_moves pv pset fmt). mv_id m \<in> TRAP_MOVES)) \<and>
           (\<forall>p\<in>set problems. is_sleep_trap_problem p \<longrightarrow> p = SleepTrap (pokemon_of pset) 2)"
proof -
  from validate_returns [OF r s c] obtain problems
    where v: "validate pv pset fmt = Inr problems" by blast
  let ?M = "check_moves pv rules pset fmt (pokemon_of pset) []"
  have b: "p \<in> set problems \<and> block_of p = Moves \<longleftrightarrow> p \<in> set ?M" for p
    by (rule in_block [OF validate_blocks(3) [OF r s v]])
  have m: "is_sleep_trap_problem p \<Longrightarrow> block_of p = Moves" for p
    by (cases p) simp_all
  have "list_ex is_sleep_trap_problem problems \<longleftrightarrow> list_ex is_sleep_trap_problem ?M"
    unfolding list_ex_iff using b m by blast
  also have "\<dots> \<longleftrightarrow> set_moves pset \<noteq> [] \<and> fmt_gen fmt = 2 \<and>
                       checkSleepTrap (moveTable_of pv pset fmt)"
    by (rule check_moves_sleep_trap)
  also have "\<dots> \<longleftrightarrow> fmt_gen fmt = 2 \<and>
              (\<exists>m\<in>set (resolved_moves pv pset fmt). mv_id m \<in> SLEEP_MOVES) \<and>
              (\<exists>m\<in>set (resolved_moves pv pset fmt). mv_id m \<in> TRAP_MOVES)"
    unfolding checkSleepTrap_iff moveTable_ids
    using resolved_moves_Nil [of pset pv fmt] by auto
  finally have iff: "list_ex is_sleep_trap_problem problems \<longleftrightarrow>
              fmt_gen fmt = 2 \<and>
              (\<exists>m\<in>set (resolved_moves pv pset fmt). mv_id m \<in> SLEEP_MOVES) \<and>
              (\<exists>m\<in>set (resolved_moves pv pset fmt). mv_id m \<in> TRAP_MOVES)" .
  have which: "p = SleepTrap (pokemon_of pset) 2"
    if p: "p \<in> set problems" and i: "is_sleep_trap_problem p" for p
  proof -
    from p i b m have pm: "p \<in> set ?M" by blast
    have n: "\<not> is_sleep_trap_problem q"
      if "q \<in> set (snd (moves_loop pv rules fmt (pokemon_of pset) (set_moves pset) ([], [])))"
      for q
      using moves_loop_kinds [OF that] by (cases q) auto
    from pm i n show ?thesis
      unfolding check_moves_Nil by (auto split: if_splits)
  qed
  from v iff which show ?thesis by blast
qed

theorem sleep_trap_problem_iff_witness:
  "species_complete ex_smeargle (ex_set ''Smeargle'' [''Spore'', ''Mean Look'']) gen2ou \<and>
   validate ex_providers (ex_set ''Smeargle'' [''Spore'', ''Mean Look'']) gen2ou =
     Inr [SleepTrap ''Smeargle'' 2] \<and>
   list_ex is_sleep_trap_problem [SleepTrap ''Smeargle'' 2] \<and>
   validate ex_providers (ex_set ''Smeargle'' [''Spore'', ''Tackle'']) gen2ou = Inr [] \<and>
   \<not> list_ex is_sleep_trap_problem []"
proof -
  let ?ou = "\<lparr>rules_id = ''ou'', clauses = ex_clauses\<rparr>"
  let ?s = "ex_set ''Smeargle'' [''Spore'', ''Mean Look'']"
  have r: "Rules_get ex_providers gen2ou = Some ?ou" by code_simp
  have s: "Species_get ex_providers (set_species ?s) (fmt_gen gen2ou) = Some ex_smeargle"
    by code_simp
  have c: "species_complete ex_smeargle ?s gen2ou" by code_simp
  have v: "validate ex_providers ?s gen2ou = Inr [SleepTrap ''Smeargle'' 2]" by code_simp
  have v': "validate ex_providers (ex_set ''Smeargle'' [''Spore'', ''Tackle'']) gen2ou = Inr []"
    by code_simp
  have m: "resolved_moves ex_providers ?s gen2ou =
           [ex_move ''spore'' ''Spore'' ''Grass'', ex_move ''meanlook'' ''Mean Look'' ''Normal'']"
    by code_simp
  have "(\<exists>m\<in>set (resolved_moves ex_providers ?s gen2ou). mv_id m \<in> SLEEP_MOVES) \<and>
        (\<exists>m\<in>set (resolved_moves ex_providers ?s gen2ou). mv_id m \<in> TRAP_MOVES)"
    unfolding m by (simp add: ex_move_def SLEEP_MOVES_def TRAP_MOVES_def)
  with sleep_trap_problem_iff [OF r s c] v
  have "list_ex is_sleep_trap_problem [SleepTrap ''Smeargle'' 2]"
    by (simp add: gen2ou_def)
  with c v v' show ?thesis by simp
qed

subsection \<open>Duplicate moves\<close>

lemma moves_loop_duplicates:
  "length (filter (is_duplicate_of i) (snd (moves_loop pv rules fmt pokemon ms (tbl, [])))) =
   (if map_of tbl i \<noteq> None
    then count_list (map mv_id (List.map_filter (\<lambda>m. Moves_get pv m (fmt_gen fmt)) ms)) i
    else count_list (map mv_id (List.map_filter (\<lambda>m. Moves_get pv m (fmt_gen fmt)) ms)) i - 1)"
proof (induction ms arbitrary: tbl)
  case Nil
  show ?case by (simp add: List.map_filter_simps)
next
  case (Cons m ms)
  show ?case
  proof (cases "Moves_get pv m (fmt_gen fmt)")
    case None
    then show ?thesis
      by (simp add: moves_loop_Cons_None List.map_filter_simps Cons.IH
               del: moves_loop.simps)
  next
    case (Some move)
    have ban: "filter (is_duplicate_of i)
                 (case move_clause_ban rules move of None \<Rightarrow> [] | Some p \<Rightarrow> [p]) = []"
      by (auto simp add: move_clause_ban_def)
    show ?thesis
    proof (cases "mv_id move = i")
      case True
      then show ?thesis
        using Some ban
        by (simp add: moves_loop_Cons_Some List.map_filter_simps Cons.IH
                      AList.update_conv' del: moves_loop.simps)
    next
      case False
      then show ?thesis
        using Some ban
        by (simp add: moves_loop_Cons_Some List.map_filter_simps Cons.IH
                      AList.update_conv' del: moves_loop.simps)
    qed
  qed
qed

lemma move_clause_ban_is_clause:
  "move_clause_ban rules move = Some q \<Longrightarrow> is_move_clause_problem q"
  by (auto simp add: move_clause_ban_def split: if_splits)

lemma moves_loop_clauses:
  "filter is_move_clause_problem (snd (moves_loop pv rules fmt pokemon ms (tbl, []))) =
   List.map_filter (move_clause_ban rules)
     (List.map_filter (\<lambda>m. Moves_get pv m (fmt_gen fmt)) ms)"
proof (induction ms arbitrary: tbl)
  case Nil
  show ?case by (simp add: List.map_filter_simps)
next
  case (Cons m ms)
  show ?case
  proof (cases "Moves_get pv m (fmt_gen fmt)")
    case None
    then show ?thesis
      by (simp add: moves_loop_Cons_None List.map_filter_simps Cons.IH
               del: moves_loop.simps)
  next
    case (Some move)
    show ?thesis
    proof (cases "move_clause_ban rules move")
      case None
      with Some show ?thesis
        by (simp add: moves_loop_Cons_Some List.map_filter_simps Cons.IH
                 del: moves_loop.simps)
    next
      case ban: (Some q)
      from move_clause_ban_is_clause [OF ban] Some ban show ?thesis
        by (simp add: moves_loop_Cons_Some List.map_filter_simps Cons.IH
                 del: moves_loop.simps)
    qed
  qed
qed

lemma check_moves_duplicates:
  "filter (is_duplicate_of i) (check_moves pv rules pset fmt pokemon []) =
   filter (is_duplicate_of i) (snd (moves_loop pv rules fmt pokemon (set_moves pset) ([], [])))"
  by (cases "set_moves pset = []") (simp_all add: check_moves_Nil)

lemma check_moves_clauses:
  "filter is_move_clause_problem (check_moves pv rules pset fmt pokemon []) =
   filter is_move_clause_problem
     (snd (moves_loop pv rules fmt pokemon (set_moves pset) ([], [])))"
  by (cases "set_moves pset = []") (simp_all add: check_moves_Nil)

lemma filter_through_block:
  assumes "\<And>p. P p \<Longrightarrow> block_of p = b"
  shows "filter P xs = filter P (filter (\<lambda>p. block_of p = b) xs)"
  using assms by (induction xs) auto

text \<open>
  Claim C4. On a resolved species, the number of duplicate-move problems for a move id
  is the number of entries of the set that resolve to that id, less one: a move listed
  \<open>n \<ge> 2\<close> times yields \<open>n - 1\<close> of them. Every resolved entry, duplicated or not,
  goes through the clause tests: the clause problems are those of the resolved entries,
  in order.
\<close>

theorem duplicate_moves_counted_and_still_checked:
  assumes r: "Rules_get pv fmt = Some rules"
    and s: "Species_get pv (set_species pset) (fmt_gen fmt) = Some species"
    and c: "species_complete species pset fmt"
  shows "\<exists>problems. validate pv pset fmt = Inr problems \<and>
           (\<forall>i. length (filter (is_duplicate_of i) problems) =
                 count_list (map mv_id (resolved_moves pv pset fmt)) i - 1) \<and>
           filter is_move_clause_problem problems =
             List.map_filter (move_clause_ban rules) (resolved_moves pv pset fmt)"
proof -
  from validate_returns [OF r s c] obtain problems
    where v: "validate pv pset fmt = Inr problems" by blast
  note mv = validate_blocks(3) [OF r s v]
  have d: "is_duplicate_of i p \<Longrightarrow> block_of p = Moves" for i p
    by (cases p) simp_all
  have k: "is_move_clause_problem p \<Longrightarrow> block_of p = Moves" for p
    by (cases p) simp_all
  have "length (filter (is_duplicate_of i) problems) =
        count_list (map mv_id (resolved_moves pv pset fmt)) i - 1" for i
  proof -
    have "filter (is_duplicate_of i) problems =
          filter (is_duplicate_of i) (filter (\<lambda>p. block_of p = Moves) problems)"
      by (rule filter_through_block [OF d])
    also have "\<dots> = filter (is_duplicate_of i)
                        (check_moves pv rules pset fmt (pokemon_of pset) [])"
      by (simp only: mv)
    also have "\<dots> = filter (is_duplicate_of i)
        (snd (moves_loop pv rules fmt (pokemon_of pset) (set_moves pset) ([], [])))"
      by (rule check_moves_duplicates)
    finally show ?thesis
      by (simp add: moves_loop_duplicates resolved_moves_def)
  qed
  moreover have "filter is_move_clause_problem problems =
             List.map_filter (move_clause_ban rules) (resolved_moves pv pset fmt)"
  proof -
    have "filter is_move_clause_problem problems =
          filter is_move_clause_problem (filter (\<lambda>p. block_of p = Moves) problems)"
      by (rule filter_through_block [OF k])
    also have "\<dots> = filter is_move_clause_problem
                        (check_moves pv rules pset fmt (pokemon_of pset) [])"
      by (simp only: mv)
    also have "\<dots> = filter is_move_clause_problem
        (snd (moves_loop pv rules fmt (pokemon_of pset) (set_moves pset) ([], [])))"
      by (rule check_moves_clauses)
    finally show ?thesis
      by (simp add: moves_loop_clauses resolved_moves_def)
  qed
  ultimately show ?thesis using v by blast
qed

theorem duplicate_moves_counted_and_still_checked_witness:
  "species_complete ex_smeargle
     (ex_set ''Smeargle'' [''Spore'', ''Fissure'', ''Spore'', ''Fissure'', ''Spore'']) gen2ou \<and>
   validate ex_providers
     (ex_set ''Smeargle'' [''Spore'', ''Fissure'', ''Spore'', ''Fissure'', ''Spore'']) gen2ou =
     Inr [MoreThanFourMoves ''Smeargle'',
          OHKOClause ''Fissure'',
          DuplicateMove ''Smeargle'' (ex_move ''spore'' ''Spore'' ''Grass''),
          DuplicateMove ''Smeargle'' ((ex_move ''fissure'' ''Fissure'' ''Ground'')\<lparr>mv_ohko := True\<rparr>),
          OHKOClause ''Fissure'',
          DuplicateMove ''Smeargle'' (ex_move ''spore'' ''Spore'' ''Grass'')] \<and>
   count_list
     (map mv_id
        (resolved_moves ex_providers
           (ex_set ''Smeargle'' [''Spore'', ''Fissure'', ''Spore'', ''Fissure'', ''Spore''])
           gen2ou)) ''spore'' = 3 \<and>
   length
     (filter (is_duplicate_of ''spore'')
        [MoreThanFourMoves ''Smeargle'',
         OHKOClause ''Fissure'',
         DuplicateMove ''Smeargle'' (ex_move ''spore'' ''Spore'' ''Grass''),
         DuplicateMove ''Smeargle'' ((ex_move ''fissure'' ''Fissure'' ''Ground'')\<lparr>mv_ohko := True\<rparr>),
         OHKOClause ''Fissure'',
         DuplicateMove ''Smeargle'' (ex_move ''spore'' ''Spore'' ''Grass'')]) = 2"
proof -
  let ?ou = "\<lparr>rules_id = ''ou'', clauses = ex_clauses\<rparr>"
  let ?s = "ex_set ''Smeargle'' [''Spore'', ''Fissure'', ''Spore'', ''Fissure'', ''Spore'']"
  let ?ps = "[MoreThanFourMoves ''Smeargle'',
          OHKOClause ''Fissure'',
          DuplicateMove ''Smeargle'' (ex_move ''spore'' ''Spore'' ''Grass''),
          DuplicateMove ''Smeargle'' ((ex_move ''fissure'' ''Fissure'' ''Ground'')\<lparr>mv_ohko := True\<rparr>),
          OHKOClause ''Fissure'',
          DuplicateMove ''Smeargle'' (ex_move ''spore'' ''Spore'' ''Grass'')]"
  have r: "Rules_get ex_providers gen2ou = Some ?ou" by code_simp
  have s: "Species_get ex_providers (set_species ?s) (fmt_gen gen2ou) = Some ex_smeargle"
    by code_simp
  have c: "species_complete ex_smeargle ?s gen2ou" by code_simp
  have v: "validate ex_providers ?s gen2ou = Inr ?ps" by code_simp
  have n: "count_list (map mv_id (resolved_moves ex_providers ?s gen2ou)) ''spore'' = 3"
    by code_simp
  from duplicate_moves_counted_and_still_checked [OF r s c] v n
  have "length (filter (is_duplicate_of ''spore'') ?ps) = 2" by auto
  with c v n show ?thesis by simp
qed

subsection \<open>Baton Pass\<close>

text \<open>
  The loop keeps each of the two variables truthy once a source has been seen; only the
  kind of the attribution changes.
\<close>

lemma batonPass_step_fst:
  "fst (batonPass_step item e st) =
     (if mv_id (snd e) = ''flamecharge'' \<or> boosts_speed (mv_boosts (snd e)) then Generic
      else if zcrystal_for item (snd e) \<and> boosts_speed (mv_zMoveBoosts (snd e)) \<and>
              \<not> truthy_attr (fst st)
      then AttributedTo (mv_name (snd e))
      else fst st)"
  by (simp add: batonPass_step_def Let_def truthy_attr_def)

lemma batonPass_step_snd_truthy:
  "truthy_attr (snd (batonPass_step item e st)) \<Longrightarrow>
   truthy_attr (snd st) \<or> mv_id (snd e) \<in> NON_SPEED_BOOST_MOVES \<or>
   boosts_non_speed (mv_boosts (snd e)) \<or>
   (zcrystal_for item (snd e) \<and> boosts_non_speed (mv_zMoveBoosts (snd e)))"
  by (auto simp add: batonPass_step_def Let_def split: if_splits)

lemma batonPass_step_snd_source:
  assumes "mv_name (snd e) \<noteq> []"
    and "truthy_attr (snd st) \<or> mv_id (snd e) \<in> NON_SPEED_BOOST_MOVES \<or>
         boosts_non_speed (mv_boosts (snd e)) \<or>
         (zcrystal_for item (snd e) \<and> boosts_non_speed (mv_zMoveBoosts (snd e)))"
  shows "truthy_attr (snd (batonPass_step item e st))"
  using assms by (auto simp add: batonPass_step_def Let_def truthy_attr_def)

lemma batonPass_fold_fst_truthy:
  "truthy_attr (fst (fold (batonPass_step item) moves st)) \<Longrightarrow>
   truthy_attr (fst st) \<or>
   list_ex (\<lambda>e. mv_id (snd e) = ''flamecharge'' \<or> boosts_speed (mv_boosts (snd e)) \<or>
                 (zcrystal_for item (snd e) \<and> boosts_speed (mv_zMoveBoosts (snd e)))) moves"
proof (induction moves arbitrary: st)
  case Nil
  then show ?case by simp
next
  case (Cons e moves)
  from Cons.IH [of "batonPass_step item e st"] Cons.prems
  show ?case by (auto simp add: batonPass_step_fst split: if_splits)
qed

lemma batonPass_fold_fst_source:
  assumes "moves_named moves"
    and "truthy_attr (fst st) \<or>
         list_ex (\<lambda>e. mv_id (snd e) = ''flamecharge'' \<or> boosts_speed (mv_boosts (snd e)) \<or>
                 (zcrystal_for item (snd e) \<and> boosts_speed (mv_zMoveBoosts (snd e)))) moves"
  shows "truthy_attr (fst (fold (batonPass_step item) moves st))"
  using assms
proof (induction moves arbitrary: st)
  case Nil
  then show ?case by simp
next
  case (Cons e moves)
  have n: "mv_name (snd e) \<noteq> []" and m: "moves_named moves"
    using Cons.prems(1) by (simp_all add: moves_named_def)
  have "truthy_attr (fst (batonPass_step item e st)) \<or>
        list_ex (\<lambda>e. mv_id (snd e) = ''flamecharge'' \<or> boosts_speed (mv_boosts (snd e)) \<or>
                 (zcrystal_for item (snd e) \<and> boosts_speed (mv_zMoveBoosts (snd e)))) moves"
    using Cons.prems(2) n by (auto simp add: batonPass_step_fst truthy_attr_def)
  from Cons.IH [OF m this] show ?case by simp
qed

lemma batonPass_fold_snd_truthy:
  "truthy_attr (snd (fold (batonPass_step item) moves st)) \<Longrightarrow>
   truthy_attr (snd st) \<or>
   list_ex (\<lambda>e. mv_id (snd e) \<in> NON_SPEED_BOOST_MOVES \<or>
                 boosts_non_speed (mv_boosts (snd e)) \<or>
                 (zcrystal_for item (snd e) \<and> boosts_non_speed (mv_zMoveBoosts (snd e)))) moves"
proof (induction moves arbitrary: st)
  case Nil
  then show ?case by simp
next
  case (Cons e moves)
  from Cons.IH [of "batonPass_step item e st"] Cons.prems
  have "truthy_attr (snd (batonPass_step item e st)) \<or>
        list_ex (\<lambda>e. mv_id (snd e) \<in> NON_SPEED_BOOST_MOVES \<or>
                 boosts_non_speed (mv_boosts (snd e)) \<or>
                 (zcrystal_for item (snd e) \<and> boosts_non_speed (mv_zMoveBoosts (snd e)))) moves"
    by simp
  with batonPass_step_snd_truthy [of item e st] show ?case by auto
qed

lemma batonPass_fold_snd_source:
  assumes "moves_named moves"
    and "truthy_attr (snd st) \<or>
         list_ex (\<lambda>e. mv_id (snd e) \<in> NON_SPEED_BOOST_MOVES \<or>
                 boosts_non_speed (mv_boosts (snd e)) \<or>
                 (zcrystal_for item (snd e) \<and> boosts_non_speed (mv_zMoveBoosts (snd e)))) moves"
  shows "truthy_attr (snd (fold (batonPass_step item) moves st))"
  using assms
proof (induction moves arbitrary: st)
  case Nil
  then show ?case by simp
next
  case (Cons e moves)
  have n: "mv_name (snd e) \<noteq> []" and m: "moves_named moves"
    using Cons.prems(1) by (simp_all add: moves_named_def)
  have "truthy_attr (snd (batonPass_step item e st)) \<or>
        list_ex (\<lambda>e. mv_id (snd e) \<in> NON_SPEED_BOOST_MOVES \<or>
                 boosts_non_speed (mv_boosts (snd e)) \<or>
                 (zcrystal_for item (snd e) \<and> boosts_non_speed (mv_zMoveBoosts (snd e)))) moves"
    using Cons.prems(2) batonPass_step_snd_source [OF n, of st item] by auto
  from Cons.IH [OF m this] show ?case by simp
qed

lemma distinct_z_moves_iff:
  "distinct_z_moves (a, b) \<longleftrightarrow> a \<noteq> b \<and> is_string a \<and> is_string b"
  by (cases a; cases b) (simp_all add: is_string_def)

lemma checkBatonPass_attributions:
  "checkBatonPass pv pset fmt moves \<longleftrightarrow>
     truthy_attr (fst (boost_attributions pv pset fmt moves)) \<and>
     truthy_attr (snd (boost_attributions pv pset fmt moves)) \<and>
     \<not> distinct_z_moves (boost_attributions pv pset fmt moves)"
  by (simp add: checkBatonPass_def boost_attributions_def Let_def distinct_z_moves_iff)

lemma speed_attribution_truthy:
  "truthy_attr (fst (boost_attributions pv pset fmt moves)) \<Longrightarrow>
   has_speed_boost_source pv pset fmt moves"
  using batonPass_fold_fst_truthy
    [of "Items_get pv (set_item pset) (fmt_gen fmt)" moves "(NoBoost, NoBoost)"]
  by (auto simp add: boost_attributions_def has_speed_boost_source_def Let_def
        batonPass_loop_def speed_forced_def truthy_attr_def split: if_splits)

lemma non_speed_attribution_truthy:
  "truthy_attr (snd (boost_attributions pv pset fmt moves)) \<Longrightarrow>
   has_non_speed_boost_source pv pset fmt moves"
  using batonPass_fold_snd_truthy
    [of "Items_get pv (set_item pset) (fmt_gen fmt)" moves "(NoBoost, NoBoost)"]
  by (auto simp add: boost_attributions_def has_non_speed_boost_source_def Let_def
        batonPass_loop_def non_speed_forced_def truthy_attr_def split: if_splits)

lemma speed_source_attribution:
  assumes "moves_named moves" and "has_speed_boost_source pv pset fmt moves"
  shows "truthy_attr (fst (boost_attributions pv pset fmt moves))"
proof (cases "speed_forced (toID pv (set_ability pset)) (Items_get pv (set_item pset) (fmt_gen fmt))")
  case True
  then show ?thesis by (simp add: boost_attributions_def Let_def truthy_attr_def)
next
  case False
  with assms(2)
  have "list_ex (\<lambda>e. mv_id (snd e) = ''flamecharge'' \<or> boosts_speed (mv_boosts (snd e)) \<or>
                 (zcrystal_for (Items_get pv (set_item pset) (fmt_gen fmt)) (snd e) \<and>
                  boosts_speed (mv_zMoveBoosts (snd e)))) moves"
    by (auto simp add: has_speed_boost_source_def speed_forced_def Let_def)
  with batonPass_fold_fst_source [OF assms(1), of "(NoBoost, NoBoost)"] False
  show ?thesis by (simp add: boost_attributions_def Let_def batonPass_loop_def)
qed

lemma non_speed_source_attribution:
  assumes "moves_named moves" and "has_non_speed_boost_source pv pset fmt moves"
  shows "truthy_attr (snd (boost_attributions pv pset fmt moves))"
proof (cases "non_speed_forced (toID pv (set_ability pset))
                (Items_get pv (set_item pset) (fmt_gen fmt))")
  case True
  then show ?thesis by (simp add: boost_attributions_def Let_def truthy_attr_def)
next
  case False
  with assms(2)
  have "list_ex (\<lambda>e. mv_id (snd e) \<in> NON_SPEED_BOOST_MOVES \<or>
                 boosts_non_speed (mv_boosts (snd e)) \<or>
                 (zcrystal_for (Items_get pv (set_item pset) (fmt_gen fmt)) (snd e) \<and>
                  boosts_non_speed (mv_zMoveBoosts (snd e)))) moves"
    by (auto simp add: has_non_speed_boost_source_def non_speed_forced_def Let_def)
  with batonPass_fold_snd_source [OF assms(1), of "(NoBoost, NoBoost)"] False
  show ?thesis by (simp add: boost_attributions_def Let_def batonPass_loop_def)
qed

text \<open>
  Claim C1. \<^verbatim>\<open>checkBatonPass\<close> reports the banned combination only if the set has a
  source of a Speed boost and a source of a boost of another stat and the two
  attributions are not names of two distinct moves; in particular it returns false with
  no Speed source or no other source. Conversely, when every move of the table has a
  name (the empty string is falsy, so a nameless move could not be attributed), a Speed
  source, another source and attributions that are not two distinct move names give
  the banned combination. The theorem holds for every move table, with or without Baton
  Pass in it and whatever the clauses of the rules.
\<close>

theorem checkBatonPass_banned_iff:
  "(checkBatonPass pv pset fmt moves \<longrightarrow>
      has_speed_boost_source pv pset fmt moves \<and>
      has_non_speed_boost_source pv pset fmt moves \<and>
      \<not> distinct_z_moves (boost_attributions pv pset fmt moves)) \<and>
   (moves_named moves \<and>
    has_speed_boost_source pv pset fmt moves \<and>
    has_non_speed_boost_source pv pset fmt moves \<and>
    \<not> distinct_z_moves (boost_attributions pv pset fmt moves) \<longrightarrow>
      checkBatonPass pv pset fmt moves)"
  using speed_attribution_truthy [of pv pset fmt moves]
    non_speed_attribution_truthy [of pv pset fmt moves]
    speed_source_attribution [of moves pv pset fmt]
    non_speed_source_attribution [of moves pv pset fmt]
  unfolding checkBatonPass_attributions by blast

theorem checkBatonPass_banned_iff_witness:
  "moves_named ex_table_boosts \<and>
   has_speed_boost_source ex_providers (ex_set ''Smeargle'' []) gen7ou ex_table_boosts \<and>
   has_non_speed_boost_source ex_providers (ex_set ''Smeargle'' []) gen7ou ex_table_boosts \<and>
   boost_attributions ex_providers (ex_set ''Smeargle'' []) gen7ou ex_table_boosts =
     (Generic, Generic) \<and>
   checkBatonPass ex_providers (ex_set ''Smeargle'' []) gen7ou ex_table_boosts \<and>
   boost_attributions ex_providers
     ((ex_set ''Smeargle'' [])\<lparr>set_item := Some ''Normalium Z''\<rparr>) gen7ou ex_table_zmoves =
     (AttributedTo ''Recycle'', AttributedTo ''Splash'') \<and>
   \<not> checkBatonPass ex_providers
     ((ex_set ''Smeargle'' [])\<lparr>set_item := Some ''Normalium Z''\<rparr>) gen7ou ex_table_zmoves"
proof -
  let ?s1 = "ex_set ''Smeargle'' []"
  let ?s2 = "(ex_set ''Smeargle'' [])\<lparr>set_item := Some ''Normalium Z''\<rparr>"
  have n: "moves_named ex_table_boosts" by code_simp
  have a: "has_speed_boost_source ex_providers ?s1 gen7ou ex_table_boosts" by code_simp
  have b: "has_non_speed_boost_source ex_providers ?s1 gen7ou ex_table_boosts" by code_simp
  have c: "boost_attributions ex_providers ?s1 gen7ou ex_table_boosts = (Generic, Generic)"
    by code_simp
  have d: "boost_attributions ex_providers ?s2 gen7ou ex_table_zmoves =
           (AttributedTo ''Recycle'', AttributedTo ''Splash'')" by code_simp
  have "checkBatonPass ex_providers ?s1 gen7ou ex_table_boosts"
    using checkBatonPass_banned_iff [of ex_providers ?s1 gen7ou ex_table_boosts] n a b c by simp
  moreover have "\<not> checkBatonPass ex_providers ?s2 gen7ou ex_table_zmoves"
    using checkBatonPass_banned_iff [of ex_providers ?s2 gen7ou ex_table_zmoves] d by auto
  ultimately show ?thesis using n a b c d by blast
qed

text \<open>
  The caller: \<^verbatim>\<open>validate\<close> reports the Baton Pass problem exactly when the rules have the
  clause, the table of the resolved moves has Baton Pass and \<^verbatim>\<open>checkBatonPass\<close> holds
  of that table.
\<close>

lemma validate_batonPass_problem:
  assumes r: "Rules_get pv fmt = Some rules"
    and s: "Species_get pv (set_species pset) (fmt_gen fmt) = Some species"
    and c: "species_complete species pset fmt"
  shows "\<exists>problems. validate pv pset fmt = Inr problems \<and>
           (BatonPassClause pk \<in> set problems \<longleftrightarrow>
              pk = pokemon_of pset \<and> ''Baton Pass'' \<in> clauses rules \<and>
              map_of (moveTable_of pv pset fmt) ''batonpass'' \<noteq> None \<and>
              checkBatonPass pv pset fmt (moveTable_of pv pset fmt))"
proof -
  from validate_returns [OF r s c] obtain problems
    where v: "validate pv pset fmt = Inr problems" by blast
  let ?M = "check_moves pv rules pset fmt (pokemon_of pset) []"
  have "BatonPassClause pk \<in> set problems \<longleftrightarrow> BatonPassClause pk \<in> set ?M"
    using in_block [OF validate_blocks(3) [OF r s v], of "BatonPassClause pk"] by simp
  moreover have "BatonPassClause pk \<notin>
    set (snd (moves_loop pv rules fmt (pokemon_of pset) (set_moves pset) ([], [])))"
    using moves_loop_kinds [of "BatonPassClause pk"] by auto
  moreover have "set_moves pset = [] \<Longrightarrow> map_of (moveTable_of pv pset fmt) ''batonpass'' = None"
    by (simp add: moveTable_of_def resolved_moves_def List.map_filter_simps)
  ultimately have "BatonPassClause pk \<in> set problems \<longleftrightarrow>
              pk = pokemon_of pset \<and> ''Baton Pass'' \<in> clauses rules \<and>
              map_of (moveTable_of pv pset fmt) ''batonpass'' \<noteq> None \<and>
              checkBatonPass pv pset fmt (moveTable_of pv pset fmt)"
    unfolding check_moves_Nil moves_loop_moveTable by auto
  with v show ?thesis by blast
qed

section \<open>The gender\<close>

lemma check_gender_gen2:
  assumes "truthy_str (set_gender pset)" and "fmt_gen fmt = 2"
    and "sp_genderRatio species = Some ratio"
  shows "check_gender pv species pset fmt pokemon [] =
     Inr ((if set_gender pset \<noteq> sp_gender species
           then [WrongGender pokemon (set_gender pset) (sp_gender species)] else []) @
          (if set_gender pset \<noteq>
              Some (dv_gender (ratio_F ratio) (Stats_itod pv (atk (set_ivs pset))))
           then [GenderDVMismatch pokemon (set_gender pset) (Stats_itod pv (atk (set_ivs pset)))
                   (dv_gender (ratio_F ratio) (Stats_itod pv (atk (set_ivs pset))))]
           else []))"
  using assms
  by (simp add: check_gender_def Let_def dv_gender_def gender_threshold_def)

lemma check_gender_other:
  assumes "truthy_str (set_gender pset)" and "fmt_gen fmt \<noteq> 2"
  shows "check_gender pv species pset fmt pokemon [] =
     Inr (if set_gender pset \<noteq> sp_gender species
          then [WrongGender pokemon (set_gender pset) (sp_gender species)] else [])"
  using assms by (simp add: check_gender_def Let_def)

text \<open>
  Claim C6. For a set that specifies a gender, on a resolved species: when the species
  has a fixed gender and the declared gender differs from it, the wrong-gender problem
  is reported; when the species has none, the generation is 2 and the declared gender
  differs from the gender that the Attack DV gives (threshold: female ratio times 16,
  5 in place of 4 and 7 in place of 8, an Attack DV at or above it meaning male), the
  DV problem is reported. The DV problem is reported in generation 2 only.
\<close>

theorem declared_gender_mismatch_reported:
  assumes r: "Rules_get pv fmt = Some rules"
    and s: "Species_get pv (set_species pset) (fmt_gen fmt) = Some species"
    and c: "species_complete species pset fmt"
    and g: "truthy_str (set_gender pset)"
  shows "\<exists>problems. validate pv pset fmt = Inr problems \<and>
           (truthy_str (sp_gender species) \<and> set_gender pset \<noteq> sp_gender species \<longrightarrow>
              WrongGender (pokemon_of pset) (set_gender pset) (sp_gender species)
                \<in> set problems) \<and>
           (\<forall>ratio.
              \<not> truthy_str (sp_gender species) \<and> fmt_gen fmt = 2 \<and>
              sp_genderRatio species = Some ratio \<and>
              set_gender pset \<noteq>
                Some (dv_gender (ratio_F ratio) (Stats_itod pv (atk (set_ivs pset)))) \<longrightarrow>
              GenderDVMismatch (pokemon_of pset) (set_gender pset)
                (Stats_itod pv (atk (set_ivs pset)))
                (dv_gender (ratio_F ratio) (Stats_itod pv (atk (set_ivs pset))))
                \<in> set problems) \<and>
           (\<forall>pk a d e. GenderDVMismatch pk a d e \<in> set problems \<longrightarrow> fmt_gen fmt = 2)"
proof -
  from validate_returns [OF r s c] obtain problems
    where v: "validate pv pset fmt = Inr problems" by blast
  obtain gs where f: "filter (\<lambda>p. block_of p = Gender) problems = gs"
    and cg: "check_gender pv species pset fmt (pokemon_of pset) [] = Inr gs"
    using validate_blocks(4) [OF r s v] by simp
  have m: "p \<in> set problems \<longleftrightarrow> p \<in> set gs" if "block_of p = Gender" for p
    using in_block [OF f, of p] that by simp
  show ?thesis
  proof (cases "fmt_gen fmt = 2")
    case True
    with c g obtain ratio where ra: "sp_genderRatio species = Some ratio"
      by (auto simp add: species_complete_def)
    from cg check_gender_gen2 [OF g True ra, of pv "pokemon_of pset"]
    have gs: "gs =
          (if set_gender pset \<noteq> sp_gender species
           then [WrongGender (pokemon_of pset) (set_gender pset) (sp_gender species)] else []) @
          (if set_gender pset \<noteq>
              Some (dv_gender (ratio_F ratio) (Stats_itod pv (atk (set_ivs pset))))
           then [GenderDVMismatch (pokemon_of pset) (set_gender pset)
                   (Stats_itod pv (atk (set_ivs pset)))
                   (dv_gender (ratio_F ratio) (Stats_itod pv (atk (set_ivs pset))))]
           else [])"
      by simp
    have 1: "WrongGender (pokemon_of pset) (set_gender pset) (sp_gender species) \<in> set problems"
      if "set_gender pset \<noteq> sp_gender species"
      using m [of "WrongGender (pokemon_of pset) (set_gender pset) (sp_gender species)"] gs that
      by simp
    have 2: "GenderDVMismatch (pokemon_of pset) (set_gender pset)
                (Stats_itod pv (atk (set_ivs pset)))
                (dv_gender (ratio_F ratio) (Stats_itod pv (atk (set_ivs pset))))
                \<in> set problems"
      if "set_gender pset \<noteq>
                Some (dv_gender (ratio_F ratio) (Stats_itod pv (atk (set_ivs pset))))"
      using m [of "GenderDVMismatch (pokemon_of pset) (set_gender pset)
                (Stats_itod pv (atk (set_ivs pset)))
                (dv_gender (ratio_F ratio) (Stats_itod pv (atk (set_ivs pset))))"] gs that
      by simp
    from v 1 2 ra True show ?thesis by auto
  next
    case False
    from cg check_gender_other [OF g False, of pv species "pokemon_of pset"]
    have gs: "gs =
          (if set_gender pset \<noteq> sp_gender species
           then [WrongGender (pokemon_of pset) (set_gender pset) (sp_gender species)] else [])"
      by simp
    have 1: "WrongGender (pokemon_of pset) (set_gender pset) (sp_gender species) \<in> set problems"
      if "set_gender pset \<noteq> sp_gender species"
      using m [of "WrongGender (pokemon_of pset) (set_gender pset) (sp_gender species)"] gs that
      by simp
    have 3: "GenderDVMismatch pk a d e \<notin> set problems" for pk a d e
      using m [of "GenderDVMismatch pk a d e"] gs by simp
    from v 1 3 False show ?thesis by auto
  qed
qed

theorem declared_gender_mismatch_reported_witness:
  "species_complete ex_smeargle ((ex_set ''Smeargle'' [''Tackle''])\<lparr>set_gender := Some ''F''\<rparr>)
     gen2ou \<and>
   \<not> truthy_str (sp_gender ex_smeargle) \<and>
   sp_genderRatio ex_smeargle = Some \<lparr>ratio_M = 1 / 2, ratio_F = 1 / 2\<rparr> \<and>
   dv_gender (1 / 2) 15 = ''M'' \<and>
   validate ex_providers ((ex_set ''Smeargle'' [''Tackle''])\<lparr>set_gender := Some ''F''\<rparr>) gen2ou =
     Inr [WrongGender ''Smeargle'' (Some ''F'') None,
          GenderDVMismatch ''Smeargle'' (Some ''F'') 15 ''M''] \<and>
   GenderDVMismatch ''Smeargle'' (Some ''F'') 15 ''M'' \<in>
     set [WrongGender ''Smeargle'' (Some ''F'') None,
          GenderDVMismatch ''Smeargle'' (Some ''F'') 15 ''M''] \<and>
   truthy_str (sp_gender ex_diancie) \<and>
   validate ex_providers
     ((ex_set ''Diancie'' [''Tackle''])\<lparr>set_gender := Some ''F'', set_ivs := all_stats 31\<rparr>)
     gen7ou =
     Inr [WrongGender ''Diancie'' (Some ''F'') (Some ''N''), NatureRequired ''Diancie'' 7,
          InvalidAbility None 7] \<and>
   WrongGender ''Diancie'' (Some ''F'') (Some ''N'') \<in>
     set [WrongGender ''Diancie'' (Some ''F'') (Some ''N''), NatureRequired ''Diancie'' 7,
          InvalidAbility None 7]"
proof -
  let ?ou = "\<lparr>rules_id = ''ou'', clauses = ex_clauses\<rparr>"
  let ?s1 = "(ex_set ''Smeargle'' [''Tackle''])\<lparr>set_gender := Some ''F''\<rparr>"
  let ?s2 = "(ex_set ''Diancie'' [''Tackle''])\<lparr>set_gender := Some ''F'', set_ivs := all_stats 31\<rparr>"
  have r1: "Rules_get ex_providers gen2ou = Some ?ou" by code_simp
  have r2: "Rules_get ex_providers gen7ou = Some ?ou" by code_simp
  have s1: "Species_get ex_providers (set_species ?s1) (fmt_gen gen2ou) = Some ex_smeargle"
    by code_simp
  have s2: "Species_get ex_providers (set_species ?s2) (fmt_gen gen7ou) = Some ex_diancie"
    by code_simp
  have c1: "species_complete ex_smeargle ?s1 gen2ou" by code_simp
  have c2: "species_complete ex_diancie ?s2 gen7ou" by code_simp
  have g1: "truthy_str (set_gender ?s1)" by code_simp
  have g2: "truthy_str (set_gender ?s2)" by code_simp
  have n1: "\<not> truthy_str (sp_gender ex_smeargle)" by code_simp
  have n2: "truthy_str (sp_gender ex_diancie)" by code_simp
  have ra: "sp_genderRatio ex_smeargle = Some \<lparr>ratio_M = 1 / 2, ratio_F = 1 / 2\<rparr>" by code_simp
  have d: "dv_gender (1 / 2) 15 = ''M''" by code_simp
  have k1: "fmt_gen gen2ou = 2" "Stats_itod ex_providers (atk (set_ivs ?s1)) = 15"
    "set_gender ?s1 = Some ''F''" "pokemon_of ?s1 = ''Smeargle''"
    by code_simp+
  have k2: "set_gender ?s2 = Some ''F''" "sp_gender ex_diancie = Some ''N''"
    "pokemon_of ?s2 = ''Diancie''"
    by code_simp+
  have v1: "validate ex_providers ?s1 gen2ou =
     Inr [WrongGender ''Smeargle'' (Some ''F'') None,
          GenderDVMismatch ''Smeargle'' (Some ''F'') 15 ''M'']" by code_simp
  have v2: "validate ex_providers ?s2 gen7ou =
     Inr [WrongGender ''Diancie'' (Some ''F'') (Some ''N''), NatureRequired ''Diancie'' 7,
          InvalidAbility None 7]" by code_simp
  have "GenderDVMismatch ''Smeargle'' (Some ''F'') 15 ''M'' \<in>
     set [WrongGender ''Smeargle'' (Some ''F'') None,
          GenderDVMismatch ''Smeargle'' (Some ''F'') 15 ''M'']"
    using declared_gender_mismatch_reported [OF r1 s1 c1 g1] v1 n1 ra d k1 by auto
  moreover have "WrongGender ''Diancie'' (Some ''F'') (Some ''N'') \<in>
     set [WrongGender ''Diancie'' (Some ''F'') (Some ''N''), NatureRequired ''Diancie'' 7,
          InvalidAbility None 7]"
    using declared_gender_mismatch_reported [OF r2 s2 c2 g2] v2 n2 k2 by auto
  ultimately show ?thesis using c1 n1 ra d v1 n2 v2 by blast
qed

text \<open>
  The comparison with the gender of the species is made whether or not the species has
  a fixed gender.
\<close>

lemma wrong_gender_without_fixed_gender:
  assumes r: "Rules_get pv fmt = Some rules"
    and s: "Species_get pv (set_species pset) (fmt_gen fmt) = Some species"
    and c: "species_complete species pset fmt"
    and g: "truthy_str (set_gender pset)"
  shows "\<exists>problems. validate pv pset fmt = Inr problems \<and>
           (WrongGender (pokemon_of pset) (set_gender pset) (sp_gender species) \<in> set problems
              \<longleftrightarrow> set_gender pset \<noteq> sp_gender species)"
proof -
  from validate_returns [OF r s c] obtain problems
    where v: "validate pv pset fmt = Inr problems" by blast
  let ?w = "WrongGender (pokemon_of pset) (set_gender pset) (sp_gender species)"
  obtain gs where gs: "filter (\<lambda>p. block_of p = Gender) problems = gs"
    and cg: "check_gender pv species pset fmt (pokemon_of pset) [] = Inr gs"
    using validate_blocks(4) [OF r s v] by simp
  have "?w \<in> set gs \<longleftrightarrow> set_gender pset \<noteq> sp_gender species"
  proof (cases "sp_genderRatio species")
    case None
    with c g have "fmt_gen fmt \<noteq> 2" by (auto simp add: species_complete_def)
    with cg g show ?thesis
      by (auto simp add: check_gender_def Let_def split: if_splits)
  next
    case (Some ratio)
    with cg g show ?thesis
      by (auto simp add: check_gender_def Let_def split: if_splits)
  qed
  with in_block [OF gs, of ?w] have "?w \<in> set problems \<longleftrightarrow> set_gender pset \<noteq> sp_gender species"
    by simp
  with v show ?thesis by (intro exI [of _ problems]) simp
qed

text \<open>
  So a declared gender on a species without a fixed gender is always reported, also
  when it is the gender that the Attack DV gives. On the instance, Smeargle has no fixed
  gender and a female ratio of one half, and the Attack IV 30 is the DV 15, which makes
  it male: the set that declares it male is reported as of the wrong gender, in
  generation 2 and in generation 7.
\<close>

lemma declared_gender_without_fixed_gender:
  "sp_gender ex_smeargle = None \<and>
   sp_genderRatio ex_smeargle = Some \<lparr>ratio_M = 1 / 2, ratio_F = 1 / 2\<rparr> \<and>
   Stats_itod ex_providers 30 = 15 \<and>
   validate ex_providers ((ex_set ''Smeargle'' [''Tackle''])\<lparr>set_gender := Some ''M''\<rparr>) gen2ou =
     Inr [WrongGender ''Smeargle'' (Some ''M'') None] \<and>
   validate ex_providers ((ex_set ''Smeargle'' [''Tackle''])\<lparr>set_gender := Some ''M''\<rparr>) gen7ou =
     Inr [WrongGender ''Smeargle'' (Some ''M'') None, NatureRequired ''Smeargle'' 7,
          InvalidAbility None 7]"
  by code_simp

section \<open>The IVs\<close>

subsection \<open>Generations 1 and 2\<close>

lemma js_rem_nonneg: "0 \<le> a \<Longrightarrow> js_rem a 4 = a mod 4"
  by (cases "a = 0") (simp_all add: js_rem_def)

lemma check_ivs_gen2:
  assumes "fmt_gen fmt = 2"
  shows "check_ivs pv species pset fmt pokemon [] =
     Inr ((if spa (set_ivs pset) \<noteq> spd (set_ivs pset)
           then [IVMismatch pokemon (spa (set_ivs pset)) (spd (set_ivs pset))] else []) @
          (if hp (Stats_istods pv (set_ivs pset)) \<noteq> Stats_getHPDV pv (set_ivs pset)
           then [HPDVMismatch pokemon (hp (Stats_istods pv (set_ivs pset)))
                   (Stats_getHPDV pv (set_ivs pset))] else []) @
          (if (def (Stats_istods pv (set_ivs pset)) = 10 \<and>
               spe (Stats_istods pv (set_ivs pset)) = 10 \<and>
               spa (Stats_istods pv (set_ivs pset)) = 10 \<and>
               js_rem (atk (Stats_istods pv (set_ivs pset))) 4 \<ge> 2) \<noteq>
              truthy_flag (set_shiny pset)
           then [ShinyMismatch pokemon (truthy_flag (set_shiny pset))] else []))"
  using assms by (auto simp add: check_ivs_def Let_def)

lemma check_ivs_gen1:
  assumes "fmt_gen fmt < 3" and "fmt_gen fmt \<noteq> 2"
  shows "check_ivs pv species pset fmt pokemon [] =
     Inr (if spa (set_ivs pset) \<noteq> spd (set_ivs pset)
          then [IVMismatch pokemon (spa (set_ivs pset)) (spd (set_ivs pset))] else [])"
  using assms by (simp add: check_ivs_def Let_def)

text \<open>
  Claim C7. In a format of a generation below 3, on a resolved species, unequal Special
  Attack and Special Defense IVs are reported. In generation 2 moreover: the HP DV
  problem is reported exactly when the HP DV of the declared IVs differs from the HP DV
  that \<^verbatim>\<open>Stats.getHPDV\<close> computes from them; and, for an Attack DV that is not negative,
  the shiny problem is reported exactly when the declared flag differs from the
  shininess of the DVs (Defense, Speed and Special DVs equal to 10 and Attack DV modulo 4
  at least 2).
\<close>

theorem early_generation_iv_checks:
  assumes r: "Rules_get pv fmt = Some rules"
    and s: "Species_get pv (set_species pset) (fmt_gen fmt) = Some species"
    and c: "species_complete species pset fmt"
    and g: "fmt_gen fmt < 3"
  shows "\<exists>problems. validate pv pset fmt = Inr problems \<and>
           (spa (set_ivs pset) \<noteq> spd (set_ivs pset) \<longrightarrow>
              IVMismatch (pokemon_of pset) (spa (set_ivs pset)) (spd (set_ivs pset))
                \<in> set problems) \<and>
           (fmt_gen fmt = 2 \<longrightarrow>
              (hp (Stats_istods pv (set_ivs pset)) \<noteq> Stats_getHPDV pv (set_ivs pset) \<longrightarrow>
                 HPDVMismatch (pokemon_of pset) (hp (Stats_istods pv (set_ivs pset)))
                   (Stats_getHPDV pv (set_ivs pset)) \<in> set problems) \<and>
              (hp (Stats_istods pv (set_ivs pset)) = Stats_getHPDV pv (set_ivs pset) \<longrightarrow>
                 (\<forall>pk a b. HPDVMismatch pk a b \<notin> set problems)) \<and>
              (0 \<le> atk (Stats_istods pv (set_ivs pset)) \<longrightarrow>
                 (shiny_dvs (Stats_istods pv (set_ivs pset)) \<noteq> truthy_flag (set_shiny pset) \<longrightarrow>
                    ShinyMismatch (pokemon_of pset) (truthy_flag (set_shiny pset))
                      \<in> set problems) \<and>
                 (shiny_dvs (Stats_istods pv (set_ivs pset)) = truthy_flag (set_shiny pset) \<longrightarrow>
                    (\<forall>pk b. ShinyMismatch pk b \<notin> set problems))))"
proof -
  from validate_returns [OF r s c] obtain problems
    where v: "validate pv pset fmt = Inr problems" by blast
  note iv = validate_blocks(6) [OF r s v]
  let ?dvs = "Stats_istods pv (set_ivs pset)"
  have one: "IVMismatch (pokemon_of pset) (spa (set_ivs pset)) (spd (set_ivs pset))
                \<in> set problems"
    if ne: "spa (set_ivs pset) \<noteq> spd (set_ivs pset)"
  proof -
    let ?p = "IVMismatch (pokemon_of pset) (spa (set_ivs pset)) (spd (set_ivs pset))"
    obtain xs where f: "filter (\<lambda>p. block_of p = IVs) problems = xs"
      and ci: "check_ivs pv species pset fmt (pokemon_of pset) [] = Inr xs"
      using iv by simp
    have "?p \<in> set xs"
    proof (cases "fmt_gen fmt = 2")
      case True
      from ci check_ivs_gen2 [OF True, of pv species pset "pokemon_of pset"] ne
      show ?thesis by auto
    next
      case False
      from ci check_ivs_gen1 [OF g False, of pv species pset "pokemon_of pset"] ne
      show ?thesis by auto
    qed
    with in_block [OF f, of ?p] show ?thesis by simp
  qed
  have two: "(hp ?dvs \<noteq> Stats_getHPDV pv (set_ivs pset) \<longrightarrow>
                 HPDVMismatch (pokemon_of pset) (hp ?dvs) (Stats_getHPDV pv (set_ivs pset))
                   \<in> set problems) \<and>
              (hp ?dvs = Stats_getHPDV pv (set_ivs pset) \<longrightarrow>
                 (\<forall>pk a b. HPDVMismatch pk a b \<notin> set problems)) \<and>
              (0 \<le> atk ?dvs \<longrightarrow>
                 (shiny_dvs ?dvs \<noteq> truthy_flag (set_shiny pset) \<longrightarrow>
                    ShinyMismatch (pokemon_of pset) (truthy_flag (set_shiny pset))
                      \<in> set problems) \<and>
                 (shiny_dvs ?dvs = truthy_flag (set_shiny pset) \<longrightarrow>
                    (\<forall>pk b. ShinyMismatch pk b \<notin> set problems)))"
    if g2: "fmt_gen fmt = 2"
  proof -
    from iv check_ivs_gen2 [OF g2, of pv species pset "pokemon_of pset"]
    have f: "filter (\<lambda>p. block_of p = IVs) problems =
          (if spa (set_ivs pset) \<noteq> spd (set_ivs pset)
           then [IVMismatch (pokemon_of pset) (spa (set_ivs pset)) (spd (set_ivs pset))] else []) @
          (if hp ?dvs \<noteq> Stats_getHPDV pv (set_ivs pset)
           then [HPDVMismatch (pokemon_of pset) (hp ?dvs) (Stats_getHPDV pv (set_ivs pset))]
           else []) @
          (if (def ?dvs = 10 \<and> spe ?dvs = 10 \<and> spa ?dvs = 10 \<and> js_rem (atk ?dvs) 4 \<ge> 2) \<noteq>
              truthy_flag (set_shiny pset)
           then [ShinyMismatch (pokemon_of pset) (truthy_flag (set_shiny pset))] else [])"
      by simp
    have h: "HPDVMismatch pk a b \<in> set problems \<longleftrightarrow>
             hp ?dvs \<noteq> Stats_getHPDV pv (set_ivs pset) \<and> pk = pokemon_of pset \<and>
             a = hp ?dvs \<and> b = Stats_getHPDV pv (set_ivs pset)" for pk a b
      using in_block [OF f, of "HPDVMismatch pk a b"] by auto
    have sh: "ShinyMismatch pk b \<in> set problems \<longleftrightarrow>
             (def ?dvs = 10 \<and> spe ?dvs = 10 \<and> spa ?dvs = 10 \<and> js_rem (atk ?dvs) 4 \<ge> 2) \<noteq>
               truthy_flag (set_shiny pset) \<and>
             pk = pokemon_of pset \<and> b = truthy_flag (set_shiny pset)" for pk b
      using in_block [OF f, of "ShinyMismatch pk b"] by auto
    have m: "shiny_dvs ?dvs \<longleftrightarrow>
             (def ?dvs = 10 \<and> spe ?dvs = 10 \<and> spa ?dvs = 10 \<and> js_rem (atk ?dvs) 4 \<ge> 2)"
      if "0 \<le> atk ?dvs"
      by (simp add: shiny_dvs_def js_rem_nonneg [OF that])
    from h sh m show ?thesis by blast
  qed
  from v one two show ?thesis by blast
qed

theorem early_generation_iv_checks_witness:
  "species_complete ex_smeargle
     ((ex_set ''Smeargle'' [''Tackle''])
        \<lparr>set_ivs := (all_stats 30)\<lparr>hp := 0, spa := 20\<rparr>, set_shiny := Some True\<rparr>) gen2ou \<and>
   fmt_gen gen2ou = 2 \<and>
   Stats_istods ex_providers ((all_stats 30)\<lparr>hp := 0, spa := 20\<rparr>) =
     \<lparr>hp = 0, atk = 15, def = 15, spa = 10, spd = 15, spe = 15\<rparr> \<and>
   Stats_getHPDV ex_providers ((all_stats 30)\<lparr>hp := 0, spa := 20\<rparr>) = 14 \<and>
   \<not> shiny_dvs \<lparr>hp = 0, atk = 15, def = 15, spa = 10, spd = 15, spe = 15\<rparr> \<and>
   validate ex_providers
     ((ex_set ''Smeargle'' [''Tackle''])
        \<lparr>set_ivs := (all_stats 30)\<lparr>hp := 0, spa := 20\<rparr>, set_shiny := Some True\<rparr>) gen2ou =
     Inr [IVMismatch ''Smeargle'' 20 30, HPDVMismatch ''Smeargle'' 0 14,
          ShinyMismatch ''Smeargle'' True] \<and>
   IVMismatch ''Smeargle'' 20 30 \<in>
     set [IVMismatch ''Smeargle'' 20 30, HPDVMismatch ''Smeargle'' 0 14,
          ShinyMismatch ''Smeargle'' True]"
proof -
  let ?ou = "\<lparr>rules_id = ''ou'', clauses = ex_clauses\<rparr>"
  let ?s = "(ex_set ''Smeargle'' [''Tackle''])
        \<lparr>set_ivs := (all_stats 30)\<lparr>hp := 0, spa := 20\<rparr>, set_shiny := Some True\<rparr>"
  have r: "Rules_get ex_providers gen2ou = Some ?ou" by code_simp
  have s: "Species_get ex_providers (set_species ?s) (fmt_gen gen2ou) = Some ex_smeargle"
    by code_simp
  have c: "species_complete ex_smeargle ?s gen2ou" by code_simp
  have g: "fmt_gen gen2ou < 3" by code_simp
  have g2: "fmt_gen gen2ou = 2" by code_simp
  have d: "Stats_istods ex_providers ((all_stats 30)\<lparr>hp := 0, spa := 20\<rparr>) =
     \<lparr>hp = 0, atk = 15, def = 15, spa = 10, spd = 15, spe = 15\<rparr>" by code_simp
  have h: "Stats_getHPDV ex_providers ((all_stats 30)\<lparr>hp := 0, spa := 20\<rparr>) = 14" by code_simp
  have n: "\<not> shiny_dvs \<lparr>hp = 0, atk = 15, def = 15, spa = 10, spd = 15, spe = 15\<rparr>"
    by code_simp
  have v: "validate ex_providers ?s gen2ou =
     Inr [IVMismatch ''Smeargle'' 20 30, HPDVMismatch ''Smeargle'' 0 14,
          ShinyMismatch ''Smeargle'' True]" by code_simp
  have k: "pokemon_of ?s = ''Smeargle''" "spa (set_ivs ?s) = 20" "spd (set_ivs ?s) = 30"
    by code_simp+
  have "IVMismatch ''Smeargle'' 20 30 \<in>
     set [IVMismatch ''Smeargle'' 20 30, HPDVMismatch ''Smeargle'' 0 14,
          ShinyMismatch ''Smeargle'' True]"
    using early_generation_iv_checks [OF r s c g] v k by auto
  with c g2 d h n v show ?thesis by blast
qed

subsection \<open>Legendary species from generation 6 on\<close>

lemma isLegendary_spec:
  assumes "sp_eggGroups s = Some groups"
  shows "isLegendary s shiny = Inr (legendary_spec s (truthy_flag shiny))"
proof -
  have a: "take 1 groups = [''Undiscovered''] \<longleftrightarrow>
           (case groups of [] \<Rightarrow> False | g # gs \<Rightarrow> g = ''Undiscovered'')"
    by (cases groups) simp_all
  have b: "\<not> truthy_str (sp_prevo s) \<longleftrightarrow> sp_prevo s = None \<or> sp_prevo s = Some []"
    by (cases "sp_prevo s") (simp_all add: truthy_str_def)
  have c: "\<not> Species_nfe s \<longleftrightarrow> sp_evos s = None \<or> sp_evos s = Some []"
    by (cases "sp_evos s") (simp_all add: Species_nfe_def)
  show ?thesis
    unfolding isLegendary_def legendary_spec_def using assms a b c
    by (cases groups) simp_all
qed

text \<open>
  Claim C8. In a format of generation 6 or later, on a resolved species with egg groups,
  the legendary problem is reported exactly when the species satisfies the legendary
  predicate of the specification and fewer than three of the six IVs are 31 or more. The
  instance below is Diancie with two perfect IVs: reported when not shiny, not reported
  when shiny.
\<close>

theorem legendary_iv_floor:
  assumes r: "Rules_get pv fmt = Some rules"
    and s: "Species_get pv (set_species pset) (fmt_gen fmt) = Some species"
    and g: "fmt_gen fmt \<ge> 6"
    and e: "sp_eggGroups species \<noteq> None"
  shows "\<exists>problems. validate pv pset fmt = Inr problems \<and>
           (LegendaryIVs (pokemon_of pset) (fmt_gen fmt) \<in> set problems \<longleftrightarrow>
              legendary_spec species (truthy_flag (set_shiny pset)) \<and>
              perfect_ivs (set_ivs pset) < 3) \<and>
           (\<forall>pk n. LegendaryIVs pk n \<in> set problems \<longrightarrow>
              pk = pokemon_of pset \<and> n = fmt_gen fmt)"
proof -
  have c: "species_complete species pset fmt"
    using g e by (simp add: species_complete_def)
  from validate_returns [OF r s c] obtain problems
    where v: "validate pv pset fmt = Inr problems" by blast
  from e obtain groups where eg: "sp_eggGroups species = Some groups" by blast
  have i: "check_ivs pv species pset fmt (pokemon_of pset) [] =
           Inr (if legendary_spec species (truthy_flag (set_shiny pset)) \<and>
                   perfect_ivs (set_ivs pset) < 3
                then [LegendaryIVs (pokemon_of pset) (fmt_gen fmt)] else [])"
    using g by (simp add: check_ivs_def isLegendary_spec [OF eg])
  have f: "filter (\<lambda>p. block_of p = IVs) problems =
           (if legendary_spec species (truthy_flag (set_shiny pset)) \<and>
                   perfect_ivs (set_ivs pset) < 3
                then [LegendaryIVs (pokemon_of pset) (fmt_gen fmt)] else [])"
    using validate_blocks(6) [OF r s v] i by simp
  have m: "LegendaryIVs pk n \<in> set problems \<longleftrightarrow>
           legendary_spec species (truthy_flag (set_shiny pset)) \<and>
           perfect_ivs (set_ivs pset) < 3 \<and> pk = pokemon_of pset \<and> n = fmt_gen fmt" for pk n
    using in_block [OF f, of "LegendaryIVs pk n"] by auto
  from v m show ?thesis by blast
qed

theorem legendary_iv_floor_witness:
  "sp_eggGroups ex_diancie \<noteq> None \<and>
   legendary_spec ex_diancie False \<and>
   perfect_ivs ((all_stats 0)\<lparr>hp := 31, atk := 31\<rparr>) = 2 \<and>
   validate ex_providers
     ((ex_set ''Diancie'' [''Tackle''])
        \<lparr>set_nature := Some ''Adamant'', set_ivs := (all_stats 0)\<lparr>hp := 31, atk := 31\<rparr>\<rparr>) gen7ou =
     Inr [LegendaryIVs ''Diancie'' 7, InvalidAbility None 7] \<and>
   LegendaryIVs ''Diancie'' 7 \<in> set [LegendaryIVs ''Diancie'' 7, InvalidAbility None 7] \<and>
   \<not> legendary_spec ex_diancie True \<and>
   validate ex_providers
     ((ex_set ''Diancie'' [''Tackle''])
        \<lparr>set_shiny := Some True, set_nature := Some ''Adamant'',
         set_ivs := (all_stats 0)\<lparr>hp := 31, atk := 31\<rparr>\<rparr>) gen7ou =
     Inr [InvalidAbility None 7] \<and>
   LegendaryIVs ''Diancie'' 7 \<notin> set [InvalidAbility None 7]"
proof -
  let ?ou = "\<lparr>rules_id = ''ou'', clauses = ex_clauses\<rparr>"
  let ?s1 = "(ex_set ''Diancie'' [''Tackle''])
        \<lparr>set_nature := Some ''Adamant'', set_ivs := (all_stats 0)\<lparr>hp := 31, atk := 31\<rparr>\<rparr>"
  let ?s2 = "(ex_set ''Diancie'' [''Tackle''])
        \<lparr>set_shiny := Some True, set_nature := Some ''Adamant'',
         set_ivs := (all_stats 0)\<lparr>hp := 31, atk := 31\<rparr>\<rparr>"
  have r: "Rules_get ex_providers gen7ou = Some ?ou" by code_simp
  have s1: "Species_get ex_providers (set_species ?s1) (fmt_gen gen7ou) = Some ex_diancie"
    by code_simp
  have s2: "Species_get ex_providers (set_species ?s2) (fmt_gen gen7ou) = Some ex_diancie"
    by code_simp
  have g: "fmt_gen gen7ou \<ge> 6" by code_simp
  have e: "sp_eggGroups ex_diancie \<noteq> None" by code_simp
  have l1: "legendary_spec ex_diancie False" by code_simp
  have l2: "\<not> legendary_spec ex_diancie True" by code_simp
  have p: "perfect_ivs ((all_stats 0)\<lparr>hp := 31, atk := 31\<rparr>) = 2" by code_simp
  have v1: "validate ex_providers ?s1 gen7ou =
            Inr [LegendaryIVs ''Diancie'' 7, InvalidAbility None 7]" by code_simp
  have v2: "validate ex_providers ?s2 gen7ou = Inr [InvalidAbility None 7]" by code_simp
  have k1: "pokemon_of ?s1 = ''Diancie''" "fmt_gen gen7ou = 7" "truthy_flag (set_shiny ?s1) = False"
     "set_ivs ?s1 = (all_stats 0)\<lparr>hp := 31, atk := 31\<rparr>"
    by code_simp+
  have k2: "pokemon_of ?s2 = ''Diancie''" "truthy_flag (set_shiny ?s2) = True"
    by code_simp+
  have "LegendaryIVs ''Diancie'' 7 \<in> set [LegendaryIVs ''Diancie'' 7, InvalidAbility None 7]"
    using legendary_iv_floor [OF r s1 g e] v1 l1 p k1 by auto
  moreover have "LegendaryIVs ''Diancie'' 7 \<notin> set [InvalidAbility None 7]"
    using legendary_iv_floor [OF r s2 g e] v2 l2 k1 k2 by auto
  ultimately show ?thesis using e l1 l2 p v1 v2 by blast
qed

section \<open>The ability\<close>

text \<open>
  On a resolved species, in a generation below 3 a non-empty ability is reported; from
  generation 3 on, the ability is reported as invalid exactly when the item lookup
  finds nothing under its name.
\<close>

lemma invalid_ability_iff_no_item:
  assumes r: "Rules_get pv fmt = Some rules"
    and s: "Species_get pv (set_species pset) (fmt_gen fmt) = Some species"
    and c: "species_complete species pset fmt"
    and g: "fmt_gen fmt \<ge> 3"
  shows "\<exists>problems. validate pv pset fmt = Inr problems \<and>
           (InvalidAbility (set_ability pset) (fmt_gen fmt) \<in> set problems \<longleftrightarrow>
              Items_get pv (set_ability pset) (fmt_gen fmt) = None)"
proof -
  from validate_returns [OF r s c] obtain problems
    where v: "validate pv pset fmt = Inr problems" by blast
  have "InvalidAbility (set_ability pset) (fmt_gen fmt) \<in> set problems \<longleftrightarrow>
        InvalidAbility (set_ability pset) (fmt_gen fmt)
          \<in> set (check_ability pv rules pset fmt (pokemon_of pset) [])"
    using in_block [OF validate_blocks(8) [OF r s v],
            of "InvalidAbility (set_ability pset) (fmt_gen fmt)"] by simp
  also have "\<dots> \<longleftrightarrow> Items_get pv (set_ability pset) (fmt_gen fmt) = None"
    using g
    by (cases "Items_get pv (set_ability pset) (fmt_gen fmt)")
       (auto simp add: check_ability_def Let_def)
  finally have "InvalidAbility (set_ability pset) (fmt_gen fmt) \<in> set problems \<longleftrightarrow>
              Items_get pv (set_ability pset) (fmt_gen fmt) = None" .
  with v show ?thesis by (intro exI [of _ problems]) simp
qed

lemma abilities_do_not_exist_before_gen3:
  assumes r: "Rules_get pv fmt = Some rules"
    and s: "Species_get pv (set_species pset) (fmt_gen fmt) = Some species"
    and c: "species_complete species pset fmt"
    and g: "fmt_gen fmt < 3"
  shows "\<exists>problems. validate pv pset fmt = Inr problems \<and>
           (AbilitiesDoNotExist (fmt_gen fmt) (pokemon_of pset) (set_ability pset)
              \<in> set problems \<longleftrightarrow> truthy_str (set_ability pset))"
proof -
  from validate_returns [OF r s c] obtain problems
    where v: "validate pv pset fmt = Inr problems" by blast
  have "AbilitiesDoNotExist (fmt_gen fmt) (pokemon_of pset) (set_ability pset)
          \<in> set problems \<longleftrightarrow>
        AbilitiesDoNotExist (fmt_gen fmt) (pokemon_of pset) (set_ability pset)
          \<in> set (check_ability pv rules pset fmt (pokemon_of pset) [])"
    using in_block [OF validate_blocks(8) [OF r s v],
            of "AbilitiesDoNotExist (fmt_gen fmt) (pokemon_of pset) (set_ability pset)"]
    by simp
  also have "\<dots> \<longleftrightarrow> truthy_str (set_ability pset)"
    using g by (auto simp add: check_ability_def Let_def)
  finally have "AbilitiesDoNotExist (fmt_gen fmt) (pokemon_of pset) (set_ability pset)
              \<in> set problems \<longleftrightarrow> truthy_str (set_ability pset)" .
  with v show ?thesis by (intro exI [of _ problems]) simp
qed

text \<open>
  Claim C3. The claim fails on the code from generation 3 on, because the ability is
  looked up with \<^verbatim>\<open>pkmn.Items.get\<close>. On the instance, whose rules have the Evasion
  Abilities clause and whose item table has no entry Sand Veil: the ability Sand Veil is
  reported as not valid and is not reported as banned, and the ability Leftovers, the
  name of an item, raises no problem at all.
\<close>

theorem ability_is_looked_up_among_items:
  "validate ex_providers
     ((ex_set ''Smeargle'' [''Tackle''])
        \<lparr>set_ability := Some ''Sand Veil'', set_nature := Some ''Adamant''\<rparr>) gen7ou =
     Inr [InvalidAbility (Some ''Sand Veil'') 7] \<and>
   Rules_get ex_providers gen7ou = Some \<lparr>rules_id = ''ou'', clauses = ex_clauses\<rparr> \<and>
   ''Evasion Abilities'' \<in> ex_clauses \<and>
   Items_get ex_providers (Some ''Sand Veil'') 7 = None \<and>
   validate ex_providers
     ((ex_set ''Smeargle'' [''Tackle''])
        \<lparr>set_ability := Some ''Leftovers'', set_nature := Some ''Adamant''\<rparr>) gen7ou =
     Inr []"
  by code_simp

end
